theory Spec2Isabelle
  imports Complex_Main "HOL-Library.Word"
begin

section \<open>Data model of \<^verbatim>\<open>hy3dgen/texgen/vertex_coloring.py\<close>\<close>

text \<open>
  The routine works on numpy arrays and on trimesh objects, all of which are mutable and
  passed by reference. Objects therefore live in a store: an address is an index into a
  list of objects, and allocation appends.

  A float64 value is either finite, and then a rational number, or one of the three
  non-finite values. Every arithmetic operation of the routine rounds its exact result;
  the rounding function of the platform, which also decides when a result overflows to an
  infinity, is a parameter of the model, and so is the conversion of a non-finite value to
  an integer. Negative zero is not told apart from zero: the only divisor of the routine
  is a difference \<^verbatim>\<open>max - min\<close>, which is never negative. The vertex positions of
  a mesh are finite, and an image array has three dimensions.
\<close>

type_synonym addr = nat
type_synonym vertex = "rat \<times> rat \<times> rat"
type_synonym face = "int \<times> int \<times> int"

datatype error = ValueError | IndexError | AttributeError

datatype fl = Fin rat | PInf | NInf | NaN

record platform =
  rnd :: "rat \<Rightarrow> fl"
  to_int :: "fl \<Rightarrow> int"

text \<open>A \<^verbatim>\<open>uint8\<close> array of shape \<open>(shape0, shape1, shape2)\<close>: height, width, channels.\<close>

record ndarray3 =
  shape0 :: nat
  shape1 :: nat
  shape2 :: nat
  item :: "nat \<Rightarrow> nat \<Rightarrow> nat \<Rightarrow> 8 word"

text \<open>A \<^verbatim>\<open>trimesh.Trimesh\<close>: its attributes are references to arrays and to a dict.\<close>

record mesh_obj =
  vertices :: addr
  faces :: addr
  vertex_colors :: "addr option"
  metadata :: "addr option"

datatype obj =
    PILImage ndarray3
  | ImageArray ndarray3
  | VertexArray "vertex list"
  | FaceArray "face list"
  | ColorArray "8 word list list"
  | Dict "(string \<times> addr) list"
  | Mesh mesh_obj
  | Opaque

type_synonym heap = "obj list"

definition deref :: "heap \<Rightarrow> addr \<Rightarrow> obj option" where
  "deref h a = (if a < length h then Some (h ! a) else None)"

definition alloc :: "heap \<Rightarrow> obj \<Rightarrow> addr \<times> heap" where
  "alloc h x = (length h, h @ [x])"

section \<open>Array operations used by the routine\<close>

text \<open>\<^verbatim>\<open>vertices.min(axis=0)\<close> and \<^verbatim>\<open>vertices.max(axis=0)\<close>: numpy raises
  \<^verbatim>\<open>ValueError\<close> when reducing an array with no rows.\<close>

definition amin :: "vertex list \<Rightarrow> error + vertex" where
  "amin vs =
     (if vs = [] then Inl ValueError
      else Inr (Min (set (map fst vs)),
                Min (set (map (fst \<circ> snd) vs)),
                Min (set (map (snd \<circ> snd) vs))))"

definition amax :: "vertex list \<Rightarrow> error + vertex" where
  "amax vs =
     (if vs = [] then Inl ValueError
      else Inr (Max (set (map fst vs)),
                Max (set (map (fst \<circ> snd) vs)),
                Max (set (map (snd \<circ> snd) vs))))"

text \<open>Float subtraction of finite values: the exact difference, rounded.\<close>

definition sub3 :: "platform \<Rightarrow> vertex \<Rightarrow> vertex \<Rightarrow> fl \<times> fl \<times> fl" where
  "sub3 fp a b =
     (case a of (ax, ay, az) \<Rightarrow> case b of (bx, by, bz) \<Rightarrow>
        (rnd fp (ax - bx), rnd fp (ay - by), rnd fp (az - bz)))"

text \<open>Float division: numpy does not raise on a zero divisor, it warns and yields
  \<^verbatim>\<open>nan\<close> for \<open>0 / 0\<close> and an infinity otherwise. A finite quotient is rounded.\<close>

fun fdiv :: "platform \<Rightarrow> fl \<Rightarrow> fl \<Rightarrow> fl" where
  "fdiv fp NaN y = NaN"
| "fdiv fp x NaN = NaN"
| "fdiv fp (Fin a) (Fin b) =
     (if b \<noteq> 0 then rnd fp (a / b)
      else if a = 0 then NaN
      else if 0 < a then PInf else NInf)"
| "fdiv fp (Fin a) y = Fin 0"
| "fdiv fp PInf (Fin b) = (if 0 \<le> b then PInf else NInf)"
| "fdiv fp NInf (Fin b) = (if 0 \<le> b then NInf else PInf)"
| "fdiv fp x y = NaN"

definition div3 :: "platform \<Rightarrow> fl \<times> fl \<times> fl \<Rightarrow> fl \<times> fl \<times> fl \<Rightarrow> fl \<times> fl \<times> fl" where
  "div3 fp a b = (case a of (ax, ay, az) \<Rightarrow> case b of (bx, by, bz) \<Rightarrow>
                    (fdiv fp ax bx, fdiv fp ay by, fdiv fp az bz))"

text \<open>Product of a float with an image dimension, rounded when finite.\<close>

definition fmul :: "platform \<Rightarrow> fl \<Rightarrow> nat \<Rightarrow> fl" where
  "fmul fp x n =
     (case x of
        Fin q \<Rightarrow> rnd fp (q * of_nat n)
      | PInf \<Rightarrow> (if n = 0 then NaN else PInf)
      | NInf \<Rightarrow> (if n = 0 then NaN else NInf)
      | NaN \<Rightarrow> NaN)"

text \<open>\<^verbatim>\<open>.astype(int)\<close> truncates a finite value toward zero. The conversion of a
  non-finite value is left to the platform (C leaves it undefined; numpy warns and does
  not raise).\<close>

definition astype_int :: "platform \<Rightarrow> fl \<Rightarrow> int" where
  "astype_int fp x =
     (case x of
        Fin q \<Rightarrow> (if 0 \<le> q then \<lfloor>q\<rfloor> else \<lceil>q\<rceil>)
      | _ \<Rightarrow> to_int fp x)"

text \<open>\<^verbatim>\<open>np.clip(a, a_min, a_max)\<close> is \<^verbatim>\<open>minimum(a_max, maximum(a, a_min))\<close>.\<close>

definition clip :: "int \<Rightarrow> int \<Rightarrow> int \<Rightarrow> int" where
  "clip a a_min a_max = min a_max (max a a_min)"

text \<open>\<^verbatim>\<open>image_array[y, x, :]\<close>: a negative index counts from the end, an index out of
  range raises \<^verbatim>\<open>IndexError\<close>.\<close>

definition wrap_index :: "nat \<Rightarrow> int \<Rightarrow> error + nat" where
  "wrap_index n i =
     (if 0 \<le> i \<and> i < int n then Inr (nat i)
      else if - int n \<le> i \<and> i < 0 then Inr (nat (i + int n))
      else Inl IndexError)"

definition getitem :: "ndarray3 \<Rightarrow> int \<Rightarrow> int \<Rightarrow> error + 8 word list" where
  "getitem a y x =
     (case wrap_index (shape0 a) y of
        Inl e \<Rightarrow> Inl e
      | Inr r \<Rightarrow>
          (case wrap_index (shape1 a) x of
             Inl e \<Rightarrow> Inl e
           | Inr c \<Rightarrow> Inr (map (item a r c) [0..<shape2 a])))"

text \<open>Assigning a one-dimensional value to a slice of \<open>n\<close> entries: numpy broadcasts a
  value of length 1 and raises \<^verbatim>\<open>ValueError\<close> for any other length mismatch.\<close>

definition broadcast_to :: "nat \<Rightarrow> 8 word list \<Rightarrow> error + 8 word list" where
  "broadcast_to n px =
     (if length px = n then Inr px
      else if length px = 1 then Inr (replicate n (hd px))
      else Inl ValueError)"

text \<open>\<^verbatim>\<open>vertex_colors[i, :] = px\<close> and \<^verbatim>\<open>vertex_colors[i, :3] = px\<close> on row \<open>i\<close>.\<close>

definition assign_all :: "8 word list \<Rightarrow> 8 word list \<Rightarrow> error + 8 word list" where
  "assign_all row px = broadcast_to (length row) px"

definition assign_first3 :: "8 word list \<Rightarrow> 8 word list \<Rightarrow> error + 8 word list" where
  "assign_first3 row px =
     (case broadcast_to (length (take 3 row)) px of
        Inl e \<Rightarrow> Inl e
      | Inr p \<Rightarrow> Inr (p @ drop 3 row))"

section \<open>The routine\<close>

text \<open>Lines 48 to 53: project the normalized vertices to pixel columns and rows.\<close>

definition project_x :: "platform \<Rightarrow> (fl \<times> fl \<times> fl) list \<Rightarrow> nat \<Rightarrow> int list" where
  "project_x fp normalized_verts img_width =
     map (\<lambda>i. clip i 0 (int img_width - 1))
       (map (\<lambda>n. astype_int fp (fmul fp (fst n) img_width)) normalized_verts)"

definition project_y :: "platform \<Rightarrow> (fl \<times> fl \<times> fl) list \<Rightarrow> nat \<Rightarrow> int list" where
  "project_y fp normalized_verts img_height =
     map (\<lambda>i. clip i 0 (int img_height - 1))
       (map (\<lambda>n. astype_int fp (fmul fp (fst (snd n)) img_height)) normalized_verts)"

text \<open>Lines 56 to 60: the sampling loop over \<^verbatim>\<open>range(len(vertices))\<close>, writing row \<open>i\<close>
  of the colour buffer in place.\<close>

fun sample_colors ::
  "heap \<Rightarrow> addr \<Rightarrow> addr \<Rightarrow> int list \<Rightarrow> int list \<Rightarrow> nat list \<Rightarrow> error + heap" where
  "sample_colors h image_array vcolors img_y img_x [] = Inr h"
| "sample_colors h image_array vcolors img_y img_x (i # rest) =
     (case deref h image_array of
        Some (ImageArray a) \<Rightarrow>
          (case deref h vcolors of
             Some (ColorArray rows) \<Rightarrow>
               (case getitem a (img_y ! i) (img_x ! i) of
                  Inl e \<Rightarrow> Inl e
                | Inr px \<Rightarrow>
                    (case (if shape2 a = 4 then assign_all (rows ! i) px
                           else assign_first3 (rows ! i) px) of
                       Inl e \<Rightarrow> Inl e
                     | Inr row \<Rightarrow>
                         sample_colors (h[vcolors := ColorArray (rows[i := row])])
                           image_array vcolors img_y img_x rest))
           | _ \<Rightarrow> Inl AttributeError)
      | _ \<Rightarrow> Inl AttributeError)"

text \<open>Modelled from the spec: the constructor \<^verbatim>\<open>trimesh.Trimesh(vertices, faces,
  vertex_colors)\<close> belongs to the trimesh library, which is not part of the repository.
  Following the data model of the spec and step 7 of its algorithm, the new mesh is an
  independent entity with the vertex positions and the face indices it is given: it keeps
  arrays of its own that hold the contents of the arrays it is passed. It carries the
  colour attribute, and it has no metadata of its own.\<close>

definition own_copy :: "heap \<Rightarrow> addr \<Rightarrow> addr \<times> heap" where
  "own_copy h a = alloc h (case deref h a of Some x \<Rightarrow> x | None \<Rightarrow> Opaque)"

definition Trimesh :: "heap \<Rightarrow> addr \<Rightarrow> addr \<Rightarrow> addr \<Rightarrow> addr \<times> heap" where
  "Trimesh h vs fs vc =
     (case own_copy h vs of
        (vs', h1) \<Rightarrow>
          (case own_copy h1 fs of
             (fs', h2) \<Rightarrow>
               alloc h2 (Mesh \<lparr>vertices = vs', faces = fs',
                               vertex_colors = Some vc, metadata = None\<rparr>)))"

text \<open>\<^verbatim>\<open>new_mesh.metadata = d\<close>: an attribute store on the new mesh object.\<close>

definition set_metadata :: "heap \<Rightarrow> addr \<Rightarrow> addr \<Rightarrow> error + heap" where
  "set_metadata h m d =
     (case deref h m of
        Some (Mesh mo) \<Rightarrow> Inr (h[m := Mesh (mo\<lparr>metadata := Some d\<rparr>)])
      | _ \<Rightarrow> Inl AttributeError)"

text \<open>Lines 70 and 71: copy the metadata dict of the input mesh, when it has one.\<close>

definition copy_metadata :: "heap \<Rightarrow> mesh_obj \<Rightarrow> addr \<Rightarrow> error + heap" where
  "copy_metadata h m new_mesh =
     (case metadata m of
        None \<Rightarrow> Inr h
      | Some d \<Rightarrow>
          (case deref h d of
             Some (Dict kvs) \<Rightarrow>
               (case alloc h (Dict kvs) of (d', h') \<Rightarrow> set_metadata h' new_mesh d')
           | _ \<Rightarrow> Inl AttributeError))"

text \<open>Lines 45 to 67, once the bounding box has been computed.\<close>

definition color_and_build ::
  "platform \<Rightarrow> heap \<Rightarrow> mesh_obj \<Rightarrow> addr \<Rightarrow> vertex list \<Rightarrow> (fl \<times> fl \<times> fl) list \<Rightarrow>
     error + (addr \<times> heap)" where
  "color_and_build fp h m image_array verts normalized_verts =
     (case alloc h (ColorArray (replicate (length verts) (replicate 4 255))) of
        (vcolors, h1) \<Rightarrow>
          (case deref h1 image_array of
             Some (ImageArray a) \<Rightarrow>
               (let img_height = shape0 a;
                    img_width = shape1 a;
                    img_x = project_x fp normalized_verts img_width;
                    img_y = project_y fp normalized_verts img_height
                in case sample_colors h1 image_array vcolors img_y img_x [0..<length verts] of
                     Inl e \<Rightarrow> Inl e
                   | Inr h2 \<Rightarrow>
                       (case Trimesh h2 (vertices m) (faces m) vcolors of
                          (new_mesh, h3) \<Rightarrow>
                            (case copy_metadata h3 m new_mesh of
                               Inl e \<Rightarrow> Inl e
                             | Inr h4 \<Rightarrow> Inr (new_mesh, h4))))
           | _ \<Rightarrow> Inl AttributeError))"

text \<open>Lines 33 to 38: the bounding box and the normalized vertices.\<close>

definition normalize :: "platform \<Rightarrow> vertex list \<Rightarrow> error + (fl \<times> fl \<times> fl) list" where
  "normalize fp verts =
     (case amin verts of
        Inl e \<Rightarrow> Inl e
      | Inr min_bounds \<Rightarrow>
          (case amax verts of
             Inl e \<Rightarrow> Inl e
           | Inr max_bounds \<Rightarrow>
               (let size = sub3 fp max_bounds min_bounds
                in Inr (map (\<lambda>v. div3 fp (sub3 fp v min_bounds) size) verts))))"

text \<open>Lines 30 to 38: read the vertex array of the mesh, copy it, normalize fp the copy. The
  copy holds the values \<open>vs\<close> of the original, and it is only read.\<close>

definition normalize_and_color ::
  "platform \<Rightarrow> heap \<Rightarrow> addr \<Rightarrow> addr \<Rightarrow> error + (addr \<times> heap)" where
  "normalize_and_color fp h mesh image_array =
     (case deref h mesh of
        Some (Mesh m) \<Rightarrow>
          (case deref h (vertices m) of
             Some (VertexArray vs) \<Rightarrow>
               (case alloc h (VertexArray vs) of
                  (verts, h1) \<Rightarrow>
                    (case normalize fp vs of
                       Inl e \<Rightarrow> Inl e
                     | Inr normalized_verts \<Rightarrow>
                         color_and_build fp h1 m image_array vs normalized_verts))
           | _ \<Rightarrow> Inl AttributeError)
      | _ \<Rightarrow> Inl AttributeError)"

text \<open>The whole routine. A PIL image is converted to a fresh array, anything else is used
  as it is. The result is the address of the new mesh and the store after the call.\<close>

definition apply_vertex_colors ::
  "platform \<Rightarrow> heap \<Rightarrow> addr \<Rightarrow> addr \<Rightarrow> error + (addr \<times> heap)" where
  "apply_vertex_colors fp h mesh img =
     (case deref h img of
        Some (PILImage a) \<Rightarrow>
          (case alloc h (ImageArray a) of
             (image_array, h1) \<Rightarrow> normalize_and_color fp h1 mesh image_array)
      | _ \<Rightarrow> normalize_and_color fp h mesh img)"

section \<open>Reading the store\<close>

text \<open>What a caller sees of a mesh: its vertex positions, its faces, its colours and its
  metadata, read through the references the mesh object holds.\<close>

definition mesh_vertices :: "heap \<Rightarrow> addr \<Rightarrow> vertex list option" where
  "mesh_vertices h mesh =
     (case deref h mesh of
        Some (Mesh m) \<Rightarrow>
          (case deref h (vertices m) of Some (VertexArray vs) \<Rightarrow> Some vs | _ \<Rightarrow> None)
      | _ \<Rightarrow> None)"

definition mesh_faces :: "heap \<Rightarrow> addr \<Rightarrow> face list option" where
  "mesh_faces h mesh =
     (case deref h mesh of
        Some (Mesh m) \<Rightarrow>
          (case deref h (faces m) of Some (FaceArray fs) \<Rightarrow> Some fs | _ \<Rightarrow> None)
      | _ \<Rightarrow> None)"

definition mesh_colors :: "heap \<Rightarrow> addr \<Rightarrow> 8 word list list option" where
  "mesh_colors h mesh =
     (case deref h mesh of
        Some (Mesh m) \<Rightarrow>
          (case vertex_colors m of
             Some c \<Rightarrow> (case deref h c of Some (ColorArray cs) \<Rightarrow> Some cs | _ \<Rightarrow> None)
           | None \<Rightarrow> None)
      | _ \<Rightarrow> None)"

text \<open>The metadata reference of a mesh is either absent or points to a dict.\<close>

definition metadata_ok :: "heap \<Rightarrow> mesh_obj \<Rightarrow> bool" where
  "metadata_ok h m =
     (case metadata m of
        None \<Rightarrow> True
      | Some d \<Rightarrow> (case deref h d of Some (Dict kvs) \<Rightarrow> True | _ \<Rightarrow> False))"

text \<open>The pixel grid behind an image argument, whether a PIL image or an array.\<close>

definition image_of :: "heap \<Rightarrow> addr \<Rightarrow> ndarray3 option" where
  "image_of h img =
     (case deref h img of
        Some (PILImage a) \<Rightarrow> Some a
      | Some (ImageArray a) \<Rightarrow> Some a
      | _ \<Rightarrow> None)"

section \<open>The sampling loop without the store\<close>

text \<open>The same loop on the rows of the colour buffer alone.\<close>

fun sample_rows ::
  "ndarray3 \<Rightarrow> 8 word list list \<Rightarrow> int list \<Rightarrow> int list \<Rightarrow> nat list \<Rightarrow>
     error + 8 word list list" where
  "sample_rows a rows img_y img_x [] = Inr rows"
| "sample_rows a rows img_y img_x (i # rest) =
     (case getitem a (img_y ! i) (img_x ! i) of
        Inl e \<Rightarrow> Inl e
      | Inr px \<Rightarrow>
          (case (if shape2 a = 4 then assign_all (rows ! i) px
                 else assign_first3 (rows ! i) px) of
             Inl e \<Rightarrow> Inl e
           | Inr row \<Rightarrow> sample_rows a (rows[i := row]) img_y img_x rest))"

text \<open>The colour a vertex receives from the pixel in row \<open>r\<close> and column \<open>c\<close>: all four
  channels of an RGBA image, or the three channels of an RGB image and alpha 255.\<close>

definition pixel_color :: "ndarray3 \<Rightarrow> nat \<Rightarrow> nat \<Rightarrow> 8 word list" where
  "pixel_color a r c =
     (if shape2 a = 4 then map (item a r c) [0..<4]
      else map (item a r c) [0..<3] @ [255])"

text \<open>The colour buffer the loop computes from the normalized vertices: entry \<open>i\<close> is the
  colour of the pixel that vertex \<open>i\<close> projects to.\<close>

definition sampled :: "platform \<Rightarrow> ndarray3 \<Rightarrow> (fl \<times> fl \<times> fl) list \<Rightarrow> 8 word list list" where
  "sampled fp a nv =
     map (\<lambda>i. pixel_color a (nat (project_y fp nv (shape0 a) ! i))
                             (nat (project_x fp nv (shape1 a) ! i)))
       [0..<length nv]"

text \<open>The objects a successful call appends to the store \<open>h\<close> it starts from (after the
  image conversion): the vertex copy of line 30, the colour buffer, the arrays of the new
  mesh, the new mesh and, when the input mesh has metadata, the copied dict.\<close>

definition new_objects ::
  "platform \<Rightarrow> heap \<Rightarrow> mesh_obj \<Rightarrow> ndarray3 \<Rightarrow> vertex list \<Rightarrow> (fl \<times> fl \<times> fl) list \<Rightarrow>
     obj list" where
  "new_objects fp h m a vs nv =
     (let base = [VertexArray vs, ColorArray (sampled fp a nv), VertexArray vs]
      in base
         @ [case deref (h @ base) (faces m) of Some x \<Rightarrow> x | None \<Rightarrow> Opaque,
            Mesh \<lparr>vertices = length h + 2, faces = length h + 3,
                  vertex_colors = Some (length h + 1),
                  metadata = (case metadata m of None \<Rightarrow> None | Some d \<Rightarrow> Some (length h + 5))\<rparr>]
         @ (case metadata m of
              None \<Rightarrow> []
            | Some d \<Rightarrow> (case deref h d of Some (Dict kvs) \<Rightarrow> [Dict kvs] | _ \<Rightarrow> [])))"

text \<open>The pixel column and the pixel row of every vertex, as functions of the inputs:
  lines 33 to 53 in one piece.\<close>

definition img_x :: "platform \<Rightarrow> vertex list \<Rightarrow> ndarray3 \<Rightarrow> int list" where
  "img_x fp vs a =
     (case normalize fp vs of Inl e \<Rightarrow> [] | Inr nv \<Rightarrow> project_x fp nv (shape1 a))"

definition img_y :: "platform \<Rightarrow> vertex list \<Rightarrow> ndarray3 \<Rightarrow> int list" where
  "img_y fp vs a =
     (case normalize fp vs of Inl e \<Rightarrow> [] | Inr nv \<Rightarrow> project_y fp nv (shape0 a))"

section \<open>Rounding\<close>



section \<open>The spec's guarded normalization\<close>

text \<open>Step 3 of the spec's algorithm with its guard: a size of 1 is substituted on an
  axis whose size is 0. Step 5: the pixel index is the floor of the scaled coordinate,
  clamped to the image.\<close>

definition spec_normalized :: "rat \<Rightarrow> rat \<Rightarrow> rat \<Rightarrow> rat" where
  "spec_normalized position min_bound max_bound =
     (let size = max_bound - min_bound
      in (position - min_bound) / (if size = 0 then 1 else size))"

definition spec_index :: "rat \<Rightarrow> nat \<Rightarrow> int" where
  "spec_index normalized n = max 0 (min (int n - 1) \<lfloor>normalized * of_nat n\<rfloor>)"

section \<open>The spec's concrete scenario\<close>

text \<open>The unit cube and a 2 by 2 RGB image with a distinct colour per pixel, in a store
  that also holds the faces of the cube, a metadata dict with one entry, the mesh object
  and the image as a PIL image. The example platform rounds to the nearest multiple of
  \<open>2\<^sup>-\<^sup>5\<^sup>2\<close>, which is exact on every value of the scenario, and converts
  \<^verbatim>\<open>nan\<close> as x86-64 does, to the least 64-bit integer.\<close>

definition unit_cube :: "vertex list" where
  "unit_cube =
     [(0, 0, 0), (1, 0, 0), (0, 1, 0), (1, 1, 0), (0, 0, 1), (1, 0, 1), (0, 1, 1), (1, 1, 1)]"

definition cube_faces :: "face list" where
  "cube_faces =
     [(0, 2, 3), (0, 3, 1), (4, 5, 7), (4, 7, 6), (0, 1, 5), (0, 5, 4),
      (2, 6, 7), (2, 7, 3), (0, 4, 6), (0, 6, 2), (1, 3, 7), (1, 7, 5)]"

definition quadrants :: ndarray3 where
  "quadrants =
     \<lparr>shape0 = 2, shape1 = 2, shape2 = 3,
       item = (\<lambda>r c k. if k = 0 then (if r = 0 then 255 else 0)
                        else if k = 1 then (if c = 0 then 255 else 0)
                        else 128)\<rparr>"

definition cube_mesh :: mesh_obj where
  "cube_mesh = \<lparr>vertices = 0, faces = 1, vertex_colors = None, metadata = Some 3\<rparr>"

definition cube_store :: heap where
  "cube_store =
     [VertexArray unit_cube, FaceArray cube_faces, Opaque, Dict [(''name'', 2)],
      Mesh cube_mesh, PILImage quadrants]"

definition grid_round :: "rat \<Rightarrow> fl" where
  "grid_round q = Fin (of_int \<lfloor>q * 2 ^ 52 + 1 / 2\<rfloor> / 2 ^ 52)"

definition example_fp :: platform where
  "example_fp = \<lparr>rnd = grid_round, to_int = (\<lambda>x. - (2 ^ 63))\<rparr>"

text \<open>A platform with the same rounding whose conversion of \<^verbatim>\<open>nan\<close> saturates to the
  largest 64-bit integer.\<close>

definition saturating_fp :: platform where
  "saturating_fp = \<lparr>rnd = grid_round, to_int = (\<lambda>x. 2 ^ 63 - 1)\<rparr>"

text \<open>A mesh with no vertices, a flat mesh whose vertices share their X coordinate, and
  an image array with no rows, each in a store of its own.\<close>

definition flat_mesh :: mesh_obj where
  "flat_mesh = \<lparr>vertices = 0, faces = 1, vertex_colors = None, metadata = None\<rparr>"

definition flat_vertices :: "vertex list" where
  "flat_vertices = [(2, 0, 0), (2, 1, 0), (2, 1, 5)]"

definition flat_store :: heap where
  "flat_store =
     [VertexArray flat_vertices, FaceArray [(0, 1, 2)], Mesh flat_mesh, ImageArray quadrants]"

definition empty_mesh_store :: heap where
  "empty_mesh_store = [VertexArray [], FaceArray [], Mesh flat_mesh, ImageArray quadrants]"

definition no_rows :: ndarray3 where
  "no_rows = quadrants\<lparr>shape0 := 0\<rparr>"

definition no_rows_store :: heap where
  "no_rows_store =
     [VertexArray flat_vertices, FaceArray [(0, 1, 2)], Mesh flat_mesh, ImageArray no_rows]"

text \<open>The same image with an alpha channel, and the flat mesh with it.\<close>

definition quadrants_rgba :: ndarray3 where
  "quadrants_rgba =
     \<lparr>shape0 = 2, shape1 = 2, shape2 = 4,
       item = (\<lambda>r c k. if k = 0 then (if r = 0 then 255 else 0)
                        else if k = 1 then (if c = 0 then 255 else 0)
                        else if k = 2 then 128
                        else 7)\<rparr>"

definition rgba_store :: heap where
  "rgba_store =
     [VertexArray flat_vertices, FaceArray [(0, 1, 2)], Mesh flat_mesh,
      ImageArray quadrants_rgba]"

text \<open>The flat mesh with other Z coordinates.\<close>

definition flat_vertices_z :: "vertex list" where
  "flat_vertices_z = [(2, 0, 7), (2, 1, - 3), (2, 1, 4)]"

definition flat_store_z :: heap where
  "flat_store_z =
     [VertexArray flat_vertices_z, FaceArray [(0, 1, 2)], Mesh flat_mesh, ImageArray quadrants]"

text \<open>A platform that rounds every result down to the grid of multiples of \<open>2\<^sup>-\<^sup>5\<^sup>2\<close>, and a
  mesh whose X coordinates are 0, 1 and 49 under an image 49 pixels wide: here the rounded
  quotient \<open>1 / 49\<close> times 49 falls below 1.\<close>

definition floor_round :: "rat \<Rightarrow> fl" where
  "floor_round q = Fin (of_int \<lfloor>q * 2 ^ 52\<rfloor> / 2 ^ 52)"

definition truncating_fp :: platform where
  "truncating_fp = \<lparr>rnd = floor_round, to_int = (\<lambda>x. - (2 ^ 63))\<rparr>"

definition ramp_vertices :: "vertex list" where
  "ramp_vertices = [(0, 0, 0), (1, 1, 0), (49, 49, 0)]"

definition wide :: ndarray3 where
  "wide = \<lparr>shape0 = 49, shape1 = 49, shape2 = 3, item = (\<lambda>r c k. 0)\<rparr>"


section \<open>Properties of the store and of the sampling loop\<close>

lemma deref_append: "deref h a = Some x \<Longrightarrow> deref (h @ ys) a = Some x"
  by (auto simp: deref_def nth_append split: if_splits)

lemma deref_fresh: "deref (h @ x # ys) (length h) = Some x"
  by (simp add: deref_def)

lemma deref_Some_less: "deref h a = Some x \<Longrightarrow> a < length h \<and> h ! a = x"
  by (auto simp: deref_def split: if_splits)

lemma sample_colors_rows:
  "deref h ia = Some (ImageArray a) \<Longrightarrow> deref h vc = Some (ColorArray rows) \<Longrightarrow>
   sample_colors h ia vc iy ix idx =
     (case sample_rows a rows iy ix idx of
        Inl e \<Rightarrow> Inl e
      | Inr rows' \<Rightarrow> Inr (h[vc := ColorArray rows']))"
proof (induction idx arbitrary: h rows)
  case Nil
  then show ?case
    by (auto simp: deref_def split: if_splits) (metis list_update_id)
next
  case (Cons i rest)
  from Cons.prems have ne: "ia \<noteq> vc" and vc: "vc < length h" and ia: "ia < length h"
    by (auto simp: deref_def split: if_splits)
  show ?case
  proof (cases "getitem a (iy ! i) (ix ! i)")
    case (Inl e)
    with Cons.prems show ?thesis by simp
  next
    case (Inr px)
    show ?thesis
    proof (cases "if shape2 a = 4 then assign_all (rows ! i) px else assign_first3 (rows ! i) px")
      case (Inl e)
      with Inr Cons.prems show ?thesis by simp
    next
      case row: (Inr row)
      let ?h = "h[vc := ColorArray (rows[i := row])]"
      have 1: "deref ?h ia = Some (ImageArray a)"
        using Cons.prems(1) ne by (auto simp: deref_def split: if_splits)
      have 2: "deref ?h vc = Some (ColorArray (rows[i := row]))"
        using vc by (simp add: deref_def)
      from Cons.IH [OF 1 2] Inr row Cons.prems show ?thesis
        by (simp split: sum.splits)
    qed
  qed
qed

lemma wrap_index_in_range: "0 \<le> i \<Longrightarrow> i < int n \<Longrightarrow> wrap_index n i = Inr (nat i)"
  by (simp add: wrap_index_def)

lemma wrap_index_empty: "wrap_index 0 i = Inl IndexError"
  by (simp add: wrap_index_def)

lemma getitem_in_range:
  "0 \<le> y \<Longrightarrow> y < int (shape0 a) \<Longrightarrow> 0 \<le> x \<Longrightarrow> x < int (shape1 a) \<Longrightarrow>
   getitem a y x = Inr (map (item a (nat y) (nat x)) [0..<shape2 a])"
  by (simp add: getitem_def wrap_index_in_range)

lemma getitem_empty: "shape0 a = 0 \<or> shape1 a = 0 \<Longrightarrow> getitem a y x = Inl IndexError"
  by (auto simp: getitem_def wrap_index_empty wrap_index_def split: sum.splits)

lemma sample_rows_empty_image:
  "shape0 a = 0 \<or> shape1 a = 0 \<Longrightarrow> idx \<noteq> [] \<Longrightarrow> sample_rows a rows iy ix idx = Inl IndexError"
  by (cases idx) (simp_all add: getitem_empty)

lemma assign_pixel_color:
  assumes "shape2 a = 3 \<or> shape2 a = 4"
  shows "(if shape2 a = 4 then assign_all (replicate 4 255) (map (item a r c) [0..<shape2 a])
          else assign_first3 (replicate 4 255) (map (item a r c) [0..<shape2 a]))
         = Inr (pixel_color a r c)"
  using assms
  by (auto simp: assign_all_def assign_first3_def broadcast_to_def pixel_color_def)


lemma sample_rows_valid:
  assumes img: "shape2 a = 3 \<or> shape2 a = 4"
    and "distinct idx"
    and "\<forall>i\<in>set idx. i < length rows \<and> rows ! i = replicate 4 255
           \<and> 0 \<le> iy ! i \<and> iy ! i < int (shape0 a) \<and> 0 \<le> ix ! i \<and> ix ! i < int (shape1 a)"
  shows "\<exists>rows'. sample_rows a rows iy ix idx = Inr rows' \<and> length rows' = length rows
           \<and> (\<forall>j<length rows. rows' ! j =
                 (if j \<in> set idx then pixel_color a (nat (iy ! j)) (nat (ix ! j)) else rows ! j))"
  using assms(2,3)
proof (induction idx arbitrary: rows)
  case Nil
  then show ?case by simp
next
  case (Cons i rest)
  let ?row = "pixel_color a (nat (iy ! i)) (nat (ix ! i))"
  let ?rows = "rows[i := ?row]"
  from Cons.prems have i: "i < length rows" "rows ! i = replicate 4 255"
    "0 \<le> iy ! i" "iy ! i < int (shape0 a)" "0 \<le> ix ! i" "ix ! i < int (shape1 a)"
    and notin: "i \<notin> set rest" and dist: "distinct rest"
    by auto
  let ?px = "map (item a (nat (iy ! i)) (nat (ix ! i))) [0..<shape2 a]"
  have px: "getitem a (iy ! i) (ix ! i) = Inr ?px"
    using i by (simp add: getitem_in_range)
  have row: "(if shape2 a = 4 then assign_all (rows ! i) ?px else assign_first3 (rows ! i) ?px)
             = Inr ?row"
    unfolding i(2) by (rule assign_pixel_color [OF img])
  have step: "sample_rows a rows iy ix (i # rest) = sample_rows a ?rows iy ix rest"
    by (simp only: sample_rows.simps px row sum.case)
  have pre: "\<forall>j\<in>set rest. j < length ?rows \<and> ?rows ! j = replicate 4 255
           \<and> 0 \<le> iy ! j \<and> iy ! j < int (shape0 a) \<and> 0 \<le> ix ! j \<and> ix ! j < int (shape1 a)"
  proof
    fix j assume j: "j \<in> set rest"
    with notin have "j \<noteq> i" by auto
    then have "?rows ! j = rows ! j" by simp
    with Cons.prems j show "j < length ?rows \<and> ?rows ! j = replicate 4 255
           \<and> 0 \<le> iy ! j \<and> iy ! j < int (shape0 a) \<and> 0 \<le> ix ! j \<and> ix ! j < int (shape1 a)"
      by simp
  qed
  from Cons.IH [OF dist pre] obtain rows' where
    r: "sample_rows a ?rows iy ix rest = Inr rows'" "length rows' = length ?rows"
      "\<forall>j<length ?rows. rows' ! j =
          (if j \<in> set rest then pixel_color a (nat (iy ! j)) (nat (ix ! j)) else ?rows ! j)"
    by blast
  have "\<forall>j<length rows. rows' ! j =
          (if j \<in> set (i # rest) then pixel_color a (nat (iy ! j)) (nat (ix ! j)) else rows ! j)"
    using r(3) notin i(1) by (auto simp: nth_list_update)
  with step r(1,2) show ?case by simp
qed

lemma clip_bounds: "0 < n \<Longrightarrow> 0 \<le> clip i 0 (int n - 1) \<and> clip i 0 (int n - 1) < int n"
  by (auto simp: clip_def)

lemma project_x_length: "length (project_x fp nv w) = length nv"
  by (simp add: project_x_def)

lemma project_y_length: "length (project_y fp nv w) = length nv"
  by (simp add: project_y_def)

lemma project_x_bounds:
  "0 < w \<Longrightarrow> i < length nv \<Longrightarrow> 0 \<le> project_x fp nv w ! i \<and> project_x fp nv w ! i < int w"
  by (simp add: project_x_def clip_bounds)

lemma project_y_bounds:
  "0 < w \<Longrightarrow> i < length nv \<Longrightarrow> 0 \<le> project_y fp nv w ! i \<and> project_y fp nv w ! i < int w"
  by (simp add: project_y_def clip_bounds)

text \<open>The colour buffer after the loop, in closed form.\<close>

lemma sample_rows_all:
  assumes "0 < shape0 a" "0 < shape1 a" "shape2 a = 3 \<or> shape2 a = 4"
  shows "sample_rows a (replicate (length nv) (replicate 4 255))
           (project_y fp nv (shape0 a)) (project_x fp nv (shape1 a)) [0..<length nv]
         = Inr (map (\<lambda>i. pixel_color a (nat (project_y fp nv (shape0 a) ! i))
                                       (nat (project_x fp nv (shape1 a) ! i)))
                  [0..<length nv])"
proof -
  let ?iy = "project_y fp nv (shape0 a)" and ?ix = "project_x fp nv (shape1 a)"
  let ?rows = "replicate (length nv) (replicate 4 (255 :: 8 word))"
  have pre: "\<forall>i\<in>set [0..<length nv]. i < length ?rows \<and> ?rows ! i = replicate 4 255
           \<and> 0 \<le> ?iy ! i \<and> ?iy ! i < int (shape0 a) \<and> 0 \<le> ?ix ! i \<and> ?ix ! i < int (shape1 a)"
    using assms(1,2) by (simp add: project_x_bounds project_y_bounds)
  from sample_rows_valid [OF assms(3) distinct_upt pre] obtain rows' where
    r: "sample_rows a ?rows ?iy ?ix [0..<length nv] = Inr rows'" "length rows' = length ?rows"
      "\<forall>j<length ?rows. rows' ! j =
         (if j \<in> set [0..<length nv] then pixel_color a (nat (?iy ! j)) (nat (?ix ! j))
          else ?rows ! j)"
    by blast
  have "rows' = map (\<lambda>i. pixel_color a (nat (?iy ! i)) (nat (?ix ! i))) [0..<length nv]"
    using r(2,3) by (intro nth_equalityI) simp_all
  with r(1) show ?thesis by simp
qed


lemma normalize_empty: "normalize fp [] = Inl ValueError"
  by (simp add: normalize_def amin_def)

lemma normalize_nonempty:
  "vs \<noteq> [] \<Longrightarrow> \<exists>nv. normalize fp vs = Inr nv \<and> length nv = length vs"
  by (simp add: normalize_def amin_def amax_def)

lemma normalize_length: "normalize fp vs = Inr nv \<Longrightarrow> length nv = length vs"
  by (auto simp: normalize_def amin_def amax_def split: if_splits)

lemma normalize_Inr_nonempty: "normalize fp vs = Inr nv \<Longrightarrow> vs \<noteq> []"
  by (auto simp: normalize_empty)

lemma copy_metadata_result:
  assumes "metadata_ok h m" and "take (length h) h' = h"
    and "deref h' new = Some (Mesh mo)"
  shows "copy_metadata h' m new =
           Inr (case metadata m of
                  None \<Rightarrow> h'
                | Some d \<Rightarrow>
                    (case deref h d of
                       Some (Dict kvs) \<Rightarrow>
                         (h' @ [Dict kvs])[new := Mesh (mo\<lparr>metadata := Some (length h')\<rparr>)]
                     | _ \<Rightarrow> h'))"
proof (cases "metadata m")
  case None
  then show ?thesis by (simp add: copy_metadata_def)
next
  case (Some d)
  with assms(1) obtain kvs where d: "deref h d = Some (Dict kvs)"
    by (auto simp: metadata_ok_def split: option.splits obj.splits)
  have "h' = h @ drop (length h) h'"
    using assms(2) by (metis append_take_drop_id)
  with d have d': "deref h' d = Some (Dict kvs)"
    by (metis deref_append)
  from assms(3) have "deref (h' @ [Dict kvs]) new = Some (Mesh mo)"
    by (rule deref_append)
  with Some d d' show ?thesis
    by (simp add: copy_metadata_def alloc_def set_metadata_def)
qed

lemma Trimesh_result:
  assumes "deref h vs = Some x"
  shows "Trimesh h vs fs vc =
           (length h + 2,
            h @ [x, case deref (h @ [x]) fs of Some y \<Rightarrow> y | None \<Rightarrow> Opaque,
                 Mesh \<lparr>vertices = length h, faces = length h + 1,
                       vertex_colors = Some vc, metadata = None\<rparr>])"
  using assms by (simp add: Trimesh_def own_copy_def alloc_def)

lemma color_and_build_valid:
  assumes ia: "deref h ia = Some (ImageArray a)"
    and img: "0 < shape0 a" "0 < shape1 a" "shape2 a = 3 \<or> shape2 a = 4"
    and len: "length nv = length vs"
    and md: "metadata_ok h0 m"
    and verts: "deref h0 (vertices m) = Some (VertexArray vs)"
    and h: "h = h0 @ [VertexArray vs]"
  shows "color_and_build fp h m ia vs nv = Inr (length h0 + 4, h0 @ new_objects fp h0 m a vs nv)"
proof -
  let ?init = "ColorArray (replicate (length vs) (replicate 4 255))"
  let ?h1 = "h @ [?init]"
  let ?h2 = "h0 @ [VertexArray vs, ColorArray (sampled fp a nv)]"
  let ?f = "case deref (h0 @ [VertexArray vs, ColorArray (sampled fp a nv), VertexArray vs])
                   (faces m) of Some y \<Rightarrow> y | None \<Rightarrow> Opaque"
  let ?mo = "\<lparr>vertices = length h0 + 2, faces = length h0 + 3,
              vertex_colors = Some (length h0 + 1), metadata = None\<rparr>"
  let ?h3 = "h0 @ [VertexArray vs, ColorArray (sampled fp a nv), VertexArray vs, ?f, Mesh ?mo]"
  have ia1: "deref ?h1 ia = Some (ImageArray a)"
    using ia by (rule deref_append)
  have vc1: "deref ?h1 (length h) = Some ?init"
    by (rule deref_fresh)
  have "sample_colors ?h1 ia (length h) (project_y fp nv (shape0 a))
                (project_x fp nv (shape1 a)) [0..<length vs]
              = Inr (h @ [ColorArray (sampled fp a nv)])"
    using sample_rows_all [OF img, of nv fp] len
    by (simp add: sample_colors_rows [OF ia1 vc1] sampled_def)
  then have loop: "sample_colors ?h1 ia (length h) (project_y fp nv (shape0 a))
                (project_x fp nv (shape1 a)) [0..<length vs] = Inr ?h2"
    by (simp add: h)
  have verts2: "deref ?h2 (vertices m) = Some (VertexArray vs)"
    using verts by (rule deref_append)
  have build: "Trimesh ?h2 (vertices m) (faces m) (length h) = (length h0 + 4, ?h3)"
    by (simp add: Trimesh_result [OF verts2] h)
  have new: "deref ?h3 (length h0 + 4) = Some (Mesh ?mo)"
    by (simp add: deref_def nth_append)
  have cm: "copy_metadata ?h3 m (length h0 + 4) =
           Inr (case metadata m of
                  None \<Rightarrow> ?h3
                | Some d \<Rightarrow>
                    (case deref h0 d of
                       Some (Dict kvs) \<Rightarrow>
                         (?h3 @ [Dict kvs])[length h0 + 4 := Mesh (?mo\<lparr>metadata := Some (length ?h3)\<rparr>)]
                     | _ \<Rightarrow> ?h3))"
    by (rule copy_metadata_result [OF md _ new]) simp
  have final: "(case metadata m of
                  None \<Rightarrow> ?h3
                | Some d \<Rightarrow>
                    (case deref h0 d of
                       Some (Dict kvs) \<Rightarrow>
                         (?h3 @ [Dict kvs])[length h0 + 4 := Mesh (?mo\<lparr>metadata := Some (length ?h3)\<rparr>)]
                     | _ \<Rightarrow> ?h3)) = h0 @ new_objects fp h0 m a vs nv"
    using md
    by (auto simp: new_objects_def metadata_ok_def list_update_append Let_def
        split: option.splits obj.splits)
  show ?thesis
    unfolding color_and_build_def alloc_def
    using ia1 loop build cm final
    by (simp add: Let_def)
qed

lemma normalize_and_color_valid:
  assumes mesh: "deref h mesh = Some (Mesh m)"
    and verts: "deref h (vertices m) = Some (VertexArray vs)"
    and md: "metadata_ok h m"
    and ia: "deref h ia = Some (ImageArray a)"
    and img: "0 < shape0 a" "0 < shape1 a" "shape2 a = 3 \<or> shape2 a = 4"
    and nv: "normalize fp vs = Inr nv"
  shows "normalize_and_color fp h mesh ia = Inr (length h + 4, h @ new_objects fp h m a vs nv)"
proof -
  have ia1: "deref (h @ [VertexArray vs]) ia = Some (ImageArray a)"
    using ia by (rule deref_append)
  have "color_and_build fp (h @ [VertexArray vs]) m ia vs nv
          = Inr (length h + 4, h @ new_objects fp h m a vs nv)"
    by (rule color_and_build_valid [OF ia1 img normalize_length [OF nv] md verts refl])
  then show ?thesis
    by (simp add: normalize_and_color_def mesh verts nv alloc_def)
qed

lemma normalize_and_color_no_vertices:
  assumes "deref h mesh = Some (Mesh m)" and "deref h (vertices m) = Some (VertexArray [])"
  shows "normalize_and_color fp h mesh ia = Inl ValueError"
  using assms by (simp add: normalize_and_color_def alloc_def normalize_empty)

lemma color_and_build_empty_image:
  assumes ia: "deref h ia = Some (ImageArray a)"
    and img: "shape0 a = 0 \<or> shape1 a = 0"
    and vs: "vs \<noteq> []"
  shows "color_and_build fp h m ia vs nv = Inl IndexError"
proof -
  let ?init = "ColorArray (replicate (length vs) (replicate 4 255))"
  let ?h1 = "h @ [?init]"
  have ia1: "deref ?h1 ia = Some (ImageArray a)"
    using ia by (rule deref_append)
  have vc1: "deref ?h1 (length h) = Some ?init"
    by (rule deref_fresh)
  have ne: "[0..<length vs] \<noteq> []"
    using vs by simp
  have "sample_colors ?h1 ia (length h) (project_y fp nv (shape0 a))
                (project_x fp nv (shape1 a)) [0..<length vs] = Inl IndexError"
    by (simp only: sample_colors_rows [OF ia1 vc1] sample_rows_empty_image [OF img ne] sum.case)
  with ia1 show ?thesis
    by (simp add: color_and_build_def alloc_def Let_def)
qed

lemma normalize_and_color_empty_image:
  assumes mesh: "deref h mesh = Some (Mesh m)"
    and verts: "deref h (vertices m) = Some (VertexArray vs)"
    and ia: "deref h ia = Some (ImageArray a)"
    and img: "shape0 a = 0 \<or> shape1 a = 0"
    and vs: "vs \<noteq> []"
  shows "normalize_and_color fp h mesh ia = Inl IndexError"
proof -
  from normalize_nonempty [OF vs] obtain nv where nv: "normalize fp vs = Inr nv"
    by blast
  have ia1: "deref (h @ [VertexArray vs]) ia = Some (ImageArray a)"
    using ia by (rule deref_append)
  show ?thesis
    by (simp add: normalize_and_color_def mesh verts nv alloc_def
        color_and_build_empty_image [OF ia1 img vs])
qed

text \<open>The store in which the routine proper starts, and the address of the pixel array
  there: a PIL image has been converted to a fresh array.\<close>

lemma apply_vertex_colors_pil:
  "deref h img = Some (PILImage a) \<Longrightarrow>
   apply_vertex_colors fp h mesh img = normalize_and_color fp (h @ [ImageArray a]) mesh (length h)"
  by (simp add: apply_vertex_colors_def alloc_def)

lemma apply_vertex_colors_array:
  "deref h img = Some (ImageArray a) \<Longrightarrow>
   apply_vertex_colors fp h mesh img = normalize_and_color fp h mesh img"
  by (simp add: apply_vertex_colors_def)

lemma image_of_cases:
  "image_of h img = Some a \<Longrightarrow>
   deref h img = Some (PILImage a) \<or> deref h img = Some (ImageArray a)"
  by (auto simp: image_of_def split: option.splits obj.splits)

lemma metadata_ok_append: "metadata_ok h m \<Longrightarrow> metadata_ok (h @ ys) m"
  by (auto simp: metadata_ok_def deref_append split: option.splits obj.splits)

lemma apply_vertex_colors_valid:
  assumes mesh: "deref h mesh = Some (Mesh m)"
    and verts: "deref h (vertices m) = Some (VertexArray vs)"
    and md: "metadata_ok h m"
    and image: "image_of h img = Some a"
    and img: "0 < shape0 a" "0 < shape1 a" "shape2 a = 3 \<or> shape2 a = 4"
    and nv: "normalize fp vs = Inr nv"
  shows "\<exists>pre. (pre = [] \<or> pre = [ImageArray a]) \<and>
           apply_vertex_colors fp h mesh img =
             Inr (length (h @ pre) + 4, (h @ pre) @ new_objects fp (h @ pre) m a vs nv)"
proof -
  from image_of_cases [OF image] show ?thesis
  proof
    assume pil: "deref h img = Some (PILImage a)"
    let ?h = "h @ [ImageArray a]"
    have "normalize_and_color fp ?h mesh (length h)
            = Inr (length ?h + 4, ?h @ new_objects fp ?h m a vs nv)"
      by (rule normalize_and_color_valid [OF deref_append [OF mesh] deref_append [OF verts]
            metadata_ok_append [OF md] deref_fresh img nv])
    then show ?thesis
      by (simp only: apply_vertex_colors_pil [OF pil]) blast
  next
    assume arr: "deref h img = Some (ImageArray a)"
    have "normalize_and_color fp h mesh img = Inr (length h + 4, h @ new_objects fp h m a vs nv)"
      by (rule normalize_and_color_valid [OF mesh verts md arr img nv])
    then have "apply_vertex_colors fp h mesh img =
             Inr (length (h @ []) + 4, (h @ []) @ new_objects fp (h @ []) m a vs nv)"
      by (simp add: apply_vertex_colors_array [OF arr])
    then show ?thesis by blast
  qed
qed

lemma apply_vertex_colors_no_vertices:
  assumes mesh: "deref h mesh = Some (Mesh m)"
    and verts: "deref h (vertices m) = Some (VertexArray [])"
    and image: "image_of h img = Some a"
  shows "apply_vertex_colors fp h mesh img = Inl ValueError"
  using image_of_cases [OF image]
proof
  assume pil: "deref h img = Some (PILImage a)"
  show ?thesis
    by (simp only: apply_vertex_colors_pil [OF pil]
        normalize_and_color_no_vertices [OF deref_append [OF mesh] deref_append [OF verts]])
next
  assume arr: "deref h img = Some (ImageArray a)"
  show ?thesis
    by (simp only: apply_vertex_colors_array [OF arr]
        normalize_and_color_no_vertices [OF mesh verts])
qed

lemma apply_vertex_colors_empty_image:
  assumes mesh: "deref h mesh = Some (Mesh m)"
    and verts: "deref h (vertices m) = Some (VertexArray vs)"
    and image: "image_of h img = Some a"
    and img: "shape0 a = 0 \<or> shape1 a = 0"
    and vs: "vs \<noteq> []"
  shows "apply_vertex_colors fp h mesh img = Inl IndexError"
  using image_of_cases [OF image]
proof
  assume pil: "deref h img = Some (PILImage a)"
  show ?thesis
    by (simp only: apply_vertex_colors_pil [OF pil]
        normalize_and_color_empty_image [OF deref_append [OF mesh] deref_append [OF verts]
          deref_fresh img vs])
next
  assume arr: "deref h img = Some (ImageArray a)"
  show ?thesis
    by (simp only: apply_vertex_colors_array [OF arr]
        normalize_and_color_empty_image [OF mesh verts arr img vs])
qed

lemma deref_prefix: "take (length h) h' = h \<Longrightarrow> deref h a = Some x \<Longrightarrow> deref h' a = Some x"
  by (metis append_take_drop_id deref_append)

lemma new_objects_store:
  fixes fp H m a vs nv
  assumes md: "metadata_ok H m"
  defines "h' \<equiv> H @ new_objects fp H m a vs nv"
  shows "\<exists>md'. deref h' (length H + 1) = Some (ColorArray (sampled fp a nv))
         \<and> deref h' (length H + 2) = Some (VertexArray vs)
         \<and> (\<forall>x. deref H (faces m) = Some x \<longrightarrow> deref h' (length H + 3) = Some x)
         \<and> deref h' (length H + 4) =
               Some (Mesh \<lparr>vertices = length H + 2, faces = length H + 3,
                           vertex_colors = Some (length H + 1), metadata = md'\<rparr>)
         \<and> (case metadata m of
               None \<Rightarrow> md' = None
             | Some d \<Rightarrow> md' = Some (length H + 5) \<and> deref h' (length H + 5) = deref H d)"
proof -
  have f: "deref (H @ [VertexArray vs, ColorArray (sampled fp a nv), VertexArray vs]) (faces m)
             = Some x" if "deref H (faces m) = Some x" for x
    using that by (rule deref_append)
  show ?thesis
  proof (cases "metadata m")
    case None
    then show ?thesis
      by (auto simp: h'_def new_objects_def deref_def nth_append Let_def f [unfolded deref_def]
          split: if_splits)
  next
    case (Some d)
    with md obtain kvs where "deref H d = Some (Dict kvs)"
      by (auto simp: metadata_ok_def split: option.splits obj.splits)
    with Some show ?thesis
      by (auto simp: h'_def new_objects_def deref_def nth_append Let_def f [unfolded deref_def]
          split: if_splits)
  qed
qed

lemma apply_vertex_colors_store:
  assumes mesh: "deref h mesh = Some (Mesh m)"
    and verts: "deref h (vertices m) = Some (VertexArray vs)"
    and md: "metadata_ok h m"
    and image: "image_of h img = Some a"
    and img: "0 < shape0 a" "0 < shape1 a" "shape2 a = 3 \<or> shape2 a = 4"
    and nv: "normalize fp vs = Inr nv"
  shows "\<exists>new h' vc va fa md'.
           apply_vertex_colors fp h mesh img = Inr (new, h')
         \<and> take (length h) h' = h
         \<and> length h \<le> vc \<and> length h \<le> va \<and> length h \<le> fa \<and> length h \<le> new
         \<and> deref h' vc = Some (ColorArray (sampled fp a nv))
         \<and> deref h' va = Some (VertexArray vs)
         \<and> (\<forall>x. deref h (faces m) = Some x \<longrightarrow> deref h' fa = Some x)
         \<and> deref h' new =
               Some (Mesh \<lparr>vertices = va, faces = fa,
                           vertex_colors = Some vc, metadata = md'\<rparr>)
         \<and> (case metadata m of
               None \<Rightarrow> md' = None
             | Some d \<Rightarrow> \<exists>d'. md' = Some d' \<and> length h \<le> d' \<and> deref h' d' = deref h d)"
proof -
  from apply_vertex_colors_valid [OF mesh verts md image img nv]
  obtain pre where pre: "pre = [] \<or> pre = [ImageArray a]"
    and res: "apply_vertex_colors fp h mesh img =
             Inr (length (h @ pre) + 4, (h @ pre) @ new_objects fp (h @ pre) m a vs nv)"
    by blast
  let ?H = "h @ pre"
  let ?h' = "?H @ new_objects fp ?H m a vs nv"
  have mdH: "metadata_ok ?H m"
    using md by (rule metadata_ok_append)
  from new_objects_store [OF mdH, of fp a vs nv] obtain md' where
    vc: "deref ?h' (length ?H + 1) = Some (ColorArray (sampled fp a nv))"
    and va: "deref ?h' (length ?H + 2) = Some (VertexArray vs)"
    and fa: "\<forall>x. deref ?H (faces m) = Some x \<longrightarrow> deref ?h' (length ?H + 3) = Some x"
    and new: "deref ?h' (length ?H + 4) =
               Some (Mesh \<lparr>vertices = length ?H + 2, faces = length ?H + 3,
                           vertex_colors = Some (length ?H + 1), metadata = md'\<rparr>)"
    and m': "case metadata m of
               None \<Rightarrow> md' = None
             | Some d \<Rightarrow> md' = Some (length ?H + 5) \<and> deref ?h' (length ?H + 5) = deref ?H d"
    by blast
  have frame: "take (length h) ?h' = h"
    by simp
  have fa': "\<forall>x. deref h (faces m) = Some x \<longrightarrow> deref ?h' (length ?H + 3) = Some x"
    using fa by (simp add: deref_append)
  have m'': "case metadata m of
               None \<Rightarrow> md' = None
             | Some d \<Rightarrow> \<exists>d'. md' = Some d' \<and> length h \<le> d' \<and> deref ?h' d' = deref h d"
  proof (cases "metadata m")
    case None
    with m' show ?thesis by simp
  next
    case (Some d)
    with md obtain kvs where d: "deref h d = Some (Dict kvs)"
      by (auto simp: metadata_ok_def split: option.splits obj.splits)
    then have "deref ?H d = deref h d"
      by (simp add: deref_append)
    with Some m' show ?thesis by simp
  qed
  have fresh: "length h \<le> length ?H + 1" "length h \<le> length ?H + 2" "length h \<le> length ?H + 3"
    "length h \<le> length ?H + 4"
    by simp_all
  from res frame fresh vc va fa' new m'' show ?thesis
    by blast
qed

lemma apply_vertex_colors_store':
  assumes mesh: "deref h mesh = Some (Mesh m)"
    and verts: "deref h (vertices m) = Some (VertexArray vs)"
    and md: "metadata_ok h m"
    and image: "image_of h img = Some a"
    and img: "0 < shape0 a" "0 < shape1 a" "shape2 a = 3 \<or> shape2 a = 4"
    and vs: "vs \<noteq> []"
  shows "\<exists>new h' vc va fa md' nv.
           apply_vertex_colors fp h mesh img = Inr (new, h')
         \<and> normalize fp vs = Inr nv
         \<and> take (length h) h' = h
         \<and> length h \<le> vc \<and> length h \<le> va \<and> length h \<le> fa \<and> length h \<le> new
         \<and> deref h' vc = Some (ColorArray (sampled fp a nv))
         \<and> deref h' va = Some (VertexArray vs)
         \<and> (\<forall>x. deref h (faces m) = Some x \<longrightarrow> deref h' fa = Some x)
         \<and> deref h' new =
               Some (Mesh \<lparr>vertices = va, faces = fa,
                           vertex_colors = Some vc, metadata = md'\<rparr>)
         \<and> (case metadata m of
               None \<Rightarrow> md' = None
             | Some d \<Rightarrow> \<exists>d'. md' = Some d' \<and> length h \<le> d' \<and> deref h' d' = deref h d)"
proof -
  from normalize_nonempty [OF vs] obtain nv where nv: "normalize fp vs = Inr nv"
    by blast
  from apply_vertex_colors_store [OF mesh verts md image img nv] nv
  show ?thesis by blast
qed

subsection \<open>Pixel indices\<close>

text \<open>The pixel column depends on the X coordinates alone, the pixel row on the Y
  coordinates alone.\<close>

lemma img_x_closed:
  assumes "vs \<noteq> []"
  shows "img_x fp vs a =
           map (\<lambda>x. clip (astype_int fp
                     (fmul fp (fdiv fp (rnd fp (x - Min (set (map fst vs))))
                                       (rnd fp (Max (set (map fst vs)) - Min (set (map fst vs)))))
                           (shape1 a))) 0 (int (shape1 a) - 1))
             (map fst vs)"
  using assms
  by (simp add: img_x_def normalize_def amin_def amax_def project_x_def sub3_def div3_def
      split_beta comp_def)

lemma img_y_closed:
  assumes "vs \<noteq> []"
  shows "img_y fp vs a =
           map (\<lambda>y. clip (astype_int fp
                     (fmul fp (fdiv fp (rnd fp (y - Min (set (map (fst \<circ> snd) vs))))
                                       (rnd fp (Max (set (map (fst \<circ> snd) vs))
                                                - Min (set (map (fst \<circ> snd) vs)))))
                           (shape0 a))) 0 (int (shape0 a) - 1))
             (map (fst \<circ> snd) vs)"
  using assms
  by (simp add: img_y_def normalize_def amin_def amax_def project_y_def sub3_def div3_def
      split_beta comp_def)

lemma img_x_length: "vs \<noteq> [] \<Longrightarrow> length (img_x fp vs a) = length vs"
  by (simp add: img_x_closed)

lemma img_y_length: "vs \<noteq> [] \<Longrightarrow> length (img_y fp vs a) = length vs"
  by (simp add: img_y_closed)

lemma img_x_normalize: "normalize fp vs = Inr nv \<Longrightarrow> project_x fp nv (shape1 a) = img_x fp vs a"
  by (simp add: img_x_def)

lemma img_y_normalize: "normalize fp vs = Inr nv \<Longrightarrow> project_y fp nv (shape0 a) = img_y fp vs a"
  by (simp add: img_y_def)

lemma sampled_img:
  assumes "normalize fp vs = Inr nv"
  shows "sampled fp a nv =
           map (\<lambda>i. pixel_color a (nat (img_y fp vs a ! i)) (nat (img_x fp vs a ! i)))
             [0..<length vs]"
  using assms
  by (simp add: sampled_def img_x_normalize img_y_normalize normalize_length)








lemma img_x_bounds:
  "i < length vs \<Longrightarrow> 0 < shape1 a \<Longrightarrow>
   0 \<le> img_x fp vs a ! i \<and> img_x fp vs a ! i \<le> int (shape1 a) - 1"
  using clip_bounds [of "shape1 a"]
  by (cases "vs = []") (simp_all add: img_x_closed add.commute less_iff_succ_less_eq)

lemma img_y_bounds:
  "i < length vs \<Longrightarrow> 0 < shape0 a \<Longrightarrow>
   0 \<le> img_y fp vs a ! i \<and> img_y fp vs a ! i \<le> int (shape0 a) - 1"
  using clip_bounds [of "shape0 a"]
  by (cases "vs = []") (simp_all add: img_y_closed add.commute less_iff_succ_less_eq)

subsection \<open>The scenario satisfies the input conditions\<close>

lemma cube_store_inputs:
  "deref cube_store 4 = Some (Mesh cube_mesh)"
  "deref cube_store (vertices cube_mesh) = Some (VertexArray unit_cube)"
  "deref cube_store (faces cube_mesh) = Some (FaceArray cube_faces)"
  "metadata_ok cube_store cube_mesh"
  "image_of cube_store 5 = Some quadrants"
  by (simp_all add: cube_store_def cube_mesh_def deref_def metadata_ok_def image_of_def)

lemma quadrants_shape:
  "0 < shape0 quadrants" "0 < shape1 quadrants" "shape2 quadrants = 3 \<or> shape2 quadrants = 4"
  by (simp_all add: quadrants_def)

lemma unit_cube_nonempty: "unit_cube \<noteq> []"
  by (simp add: unit_cube_def)

lemma cube_store_length: "length cube_store = 6"
  by (simp add: cube_store_def)

lemma cube_store_dict: "deref cube_store 3 = Some (Dict [(''name'', 2)])"
  by (simp add: cube_store_def deref_def)

lemma flat_store_inputs:
  "deref flat_store 2 = Some (Mesh flat_mesh)"
  "deref flat_store (vertices flat_mesh) = Some (VertexArray flat_vertices)"
  "deref flat_store (faces flat_mesh) = Some (FaceArray [(0, 1, 2)])"
  "metadata_ok flat_store flat_mesh"
  "image_of flat_store 3 = Some quadrants"
  by (simp_all add: flat_store_def flat_mesh_def deref_def metadata_ok_def image_of_def)

lemma flat_vertices_nonempty: "flat_vertices \<noteq> []"
  by (simp add: flat_vertices_def)

lemma empty_mesh_store_inputs:
  "deref empty_mesh_store 2 = Some (Mesh flat_mesh)"
  "deref empty_mesh_store (vertices flat_mesh) = Some (VertexArray [])"
  "metadata_ok empty_mesh_store flat_mesh"
  "image_of empty_mesh_store 3 = Some quadrants"
  by (simp_all add: empty_mesh_store_def flat_mesh_def deref_def metadata_ok_def image_of_def)

lemma no_rows_store_inputs:
  "deref no_rows_store 2 = Some (Mesh flat_mesh)"
  "deref no_rows_store (vertices flat_mesh) = Some (VertexArray flat_vertices)"
  "metadata_ok no_rows_store flat_mesh"
  "image_of no_rows_store 3 = Some no_rows"
  by (simp_all add: no_rows_store_def flat_mesh_def deref_def metadata_ok_def image_of_def)

lemma no_rows_shape: "shape0 no_rows = 0" "shape2 no_rows = 3 \<or> shape2 no_rows = 4"
  by (simp_all add: no_rows_def quadrants_def)

lemma rgba_store_inputs:
  "deref rgba_store 2 = Some (Mesh flat_mesh)"
  "deref rgba_store (vertices flat_mesh) = Some (VertexArray flat_vertices)"
  "metadata_ok rgba_store flat_mesh"
  "image_of rgba_store 3 = Some quadrants_rgba"
  by (simp_all add: rgba_store_def flat_mesh_def deref_def metadata_ok_def image_of_def)

lemma quadrants_rgba_shape:
  "0 < shape0 quadrants_rgba" "0 < shape1 quadrants_rgba"
  "shape2 quadrants_rgba = 3 \<or> shape2 quadrants_rgba = 4"
  by (simp_all add: quadrants_rgba_def)

lemma apply_vertex_colors_colors:
  assumes mesh: "deref h mesh = Some (Mesh m)"
    and verts: "deref h (vertices m) = Some (VertexArray vs)"
    and md: "metadata_ok h m"
    and image: "image_of h img = Some a"
    and img: "0 < shape0 a" "0 < shape1 a" "shape2 a = 3 \<or> shape2 a = 4"
    and vs: "vs \<noteq> []"
  shows "\<exists>new h'.
           apply_vertex_colors fp h mesh img = Inr (new, h')
         \<and> mesh_colors h' new =
             Some (map (\<lambda>i. pixel_color a (nat (img_y fp vs a ! i)) (nat (img_x fp vs a ! i)))
                     [0..<length vs])"
proof -
  from apply_vertex_colors_store' [OF mesh verts md image img vs, of fp]
  obtain new h' vc va fa md' nv where res: "apply_vertex_colors fp h mesh img = Inr (new, h')"
    and nv: "normalize fp vs = Inr nv"
    and vc: "deref h' vc = Some (ColorArray (sampled fp a nv))"
    and new: "deref h' new =
               Some (Mesh \<lparr>vertices = va, faces = fa,
                           vertex_colors = Some vc, metadata = md'\<rparr>)"
    by blast
  have "mesh_colors h' new = Some (sampled fp a nv)"
    by (simp add: mesh_colors_def new vc)
  with res show ?thesis
    by (simp add: sampled_img [OF nv])
qed

lemma pixel_color_length: "length (pixel_color a r c) = 4"
  by (simp add: pixel_color_def)

text \<open>The rounding of the example platform is monotone and exact on integers.\<close>

lemma grid_round_of_int: "grid_round (of_int n) = Fin (of_int n)"
proof -
  have "\<lfloor>(of_int n :: rat) * 2 ^ 52 + 1 / 2\<rfloor> = n * 2 ^ 52"
    by (rule floor_unique) simp_all
  then show ?thesis
    by (simp add: grid_round_def)
qed

lemma grid_round_numerals:
  "grid_round 0 = Fin 0" "grid_round 1 = Fin 1" "grid_round 2 = Fin 2"
  using grid_round_of_int [of 0] grid_round_of_int [of 1] grid_round_of_int [of 2]
  by simp_all




lemma saturating_fp_rounding: "rnd saturating_fp 0 = Fin 0"
  by (simp add: saturating_fp_def grid_round_numerals)

lemma cube_img_x: "img_x example_fp unit_cube quadrants = [0, 1, 0, 1, 0, 1, 0, 1]"
  by (simp add: img_x_closed unit_cube_def quadrants_def fmul_def astype_int_def clip_def
      example_fp_def grid_round_numerals)

lemma cube_img_y: "img_y example_fp unit_cube quadrants = [0, 0, 1, 1, 0, 0, 1, 1]"
  by (simp add: img_y_closed unit_cube_def quadrants_def fmul_def astype_int_def clip_def
      example_fp_def grid_round_numerals)

lemma flat_img_rgba:
  "img_x example_fp flat_vertices quadrants_rgba = [0, 0, 0]"
  "img_y example_fp flat_vertices quadrants_rgba = [0, 1, 1]"
  by (simp_all add: img_x_closed img_y_closed flat_vertices_def quadrants_rgba_def
      fmul_def astype_int_def clip_def example_fp_def grid_round_numerals)





lemma flat_store_z_inputs:
  "deref flat_store_z 2 = Some (Mesh flat_mesh)"
  "deref flat_store_z (vertices flat_mesh) = Some (VertexArray flat_vertices_z)"
  "metadata_ok flat_store_z flat_mesh"
  "image_of flat_store_z 3 = Some quadrants"
  by (simp_all add: flat_store_z_def flat_mesh_def deref_def metadata_ok_def image_of_def)










subsection \<open>Rounding moves a vertex to the neighbouring pixel\<close>

text \<open>The pixel index is the floor of the rounded product, not of the exact one: on a platform
  that rounds down, the vertex at \<open>x = 1\<close> of a mesh spanning \<open>[0, 49]\<close> samples column 0
  of an image 49 pixels wide, where exact arithmetic gives column 1.\<close>

lemma floor_round_values:
  "floor_round 0 = Fin 0" "floor_round 1 = Fin 1" "floor_round 49 = Fin 49"
  "floor_round (1 / 49) = Fin (22977549119237 / 1125899906842624)"
  "floor_round (1125899906842613 / 1125899906842624) = Fin (1125899906842613 / 1125899906842624)"
  by (simp_all add: floor_round_def floor_eq_iff)

lemma below_one: "\<lfloor>1125899906842613 / 1125899906842624 :: rat\<rfloor> = 0"
  by (simp add: floor_eq_iff)

lemma ramp_img_x: "img_x truncating_fp ramp_vertices wide = [0, 0, 48]"
  by (simp add: img_x_closed ramp_vertices_def wide_def truncating_fp_def fmul_def
      astype_int_def clip_def floor_round_values below_one)

lemma ramp_exact: "spec_index (spec_normalized 1 0 49) 49 = 1"
  by (simp add: spec_index_def spec_normalized_def)



section \<open>The claims\<close>

subsection \<open>Error conditions\<close>

text \<open>Claim C2, as amended. For a well-formed mesh and an image with 3 or 4 channels, the
  routine fails exactly when the mesh has no vertices or the image has zero height or zero
  width; every other such call returns. The routine validates nothing and there is no
  \<^verbatim>\<open>InvalidInput\<close> error: the failure is the exception numpy raises where the
  computation breaks down, a \<^verbatim>\<open>ValueError\<close> from the reduction over an empty vertex
  array, and otherwise an \<^verbatim>\<open>IndexError\<close> from the first pixel access in an image
  without pixels. The two failures are of different kinds.\<close>

theorem error_conditions:
  assumes mesh: "deref h mesh = Some (Mesh m)"
    and verts: "deref h (vertices m) = Some (VertexArray vs)"
    and md: "metadata_ok h m"
    and image: "image_of h img = Some a"
    and ch: "shape2 a = 3 \<or> shape2 a = 4"
  shows "((\<exists>e. apply_vertex_colors fp h mesh img = Inl e)
            \<longleftrightarrow> (vs = [] \<or> shape0 a = 0 \<or> shape1 a = 0))
         \<and> (vs = [] \<longrightarrow> apply_vertex_colors fp h mesh img = Inl ValueError)
         \<and> (vs \<noteq> [] \<and> (shape0 a = 0 \<or> shape1 a = 0)
              \<longrightarrow> apply_vertex_colors fp h mesh img = Inl IndexError)"
proof -
  have none: "apply_vertex_colors fp h mesh img = Inl ValueError" if "vs = []"
    using apply_vertex_colors_no_vertices [OF mesh _ image] verts that by simp
  have empty: "apply_vertex_colors fp h mesh img = Inl IndexError"
    if "vs \<noteq> []" "shape0 a = 0 \<or> shape1 a = 0"
    by (rule apply_vertex_colors_empty_image [OF mesh verts image that(2,1)])
  have ok: "\<exists>r. apply_vertex_colors fp h mesh img = Inr r"
    if "vs \<noteq> []" "0 < shape0 a" "0 < shape1 a"
  proof -
    from normalize_nonempty [OF that(1)] obtain nv where nv: "normalize fp vs = Inr nv"
      by blast
    from apply_vertex_colors_valid [OF mesh verts md image that(2,3) ch nv]
    show ?thesis by blast
  qed
  show ?thesis
  proof (intro conjI impI iffI)
    assume "\<exists>e. apply_vertex_colors fp h mesh img = Inl e"
    with ok show "vs = [] \<or> shape0 a = 0 \<or> shape1 a = 0"
      by (metis Inl_Inr_False neq0_conv)
  next
    assume "vs = [] \<or> shape0 a = 0 \<or> shape1 a = 0"
    with none empty show "\<exists>e. apply_vertex_colors fp h mesh img = Inl e"
      by metis
  next
    assume "vs = []"
    then show "apply_vertex_colors fp h mesh img = Inl ValueError" by (rule none)
  next
    assume "vs \<noteq> [] \<and> (shape0 a = 0 \<or> shape1 a = 0)"
    then show "apply_vertex_colors fp h mesh img = Inl IndexError"
      using empty by blast
  qed
qed

theorem error_conditions_witness:
  "apply_vertex_colors example_fp empty_mesh_store 2 3 = Inl ValueError
   \<and> apply_vertex_colors example_fp no_rows_store 2 3 = Inl IndexError
   \<and> (\<nexists>e. apply_vertex_colors example_fp flat_store 2 3 = Inl e)"
proof -
  have 1: "apply_vertex_colors example_fp empty_mesh_store 2 3 = Inl ValueError"
    using error_conditions [OF empty_mesh_store_inputs quadrants_shape(3), of example_fp]
    by simp
  have 2: "apply_vertex_colors example_fp no_rows_store 2 3 = Inl IndexError"
    using error_conditions [OF no_rows_store_inputs no_rows_shape(2), of example_fp]
    by (simp add: no_rows_shape(1) flat_vertices_nonempty)
  have 3: "\<nexists>e. apply_vertex_colors example_fp flat_store 2 3 = Inl e"
    using error_conditions [OF flat_store_inputs(1,2,4,5) quadrants_shape(3), of example_fp]
      quadrants_shape(1,2)
    by (simp add: flat_vertices_nonempty)
  from 1 2 3 show ?thesis by simp
qed

theorem error_kinds_counterexample:
  "apply_vertex_colors example_fp empty_mesh_store 2 3 = Inl ValueError
   \<and> apply_vertex_colors example_fp no_rows_store 2 3 = Inl IndexError
   \<and> ValueError \<noteq> IndexError"
proof -
  have "apply_vertex_colors example_fp empty_mesh_store 2 3 = Inl ValueError"
    by (rule apply_vertex_colors_no_vertices [OF empty_mesh_store_inputs(1,2,4)])
  moreover have "shape0 no_rows = 0 \<or> shape1 no_rows = 0"
    by (simp add: no_rows_shape(1))
  then have "apply_vertex_colors example_fp no_rows_store 2 3 = Inl IndexError"
    by (rule apply_vertex_colors_empty_image [OF no_rows_store_inputs(1,2,4) _
          flat_vertices_nonempty])
  ultimately show ?thesis
    by simp
qed

subsection \<open>Shape preservation\<close>

text \<open>Claim C3. For every valid mesh and image, the mesh that the routine returns has the
  vertex positions of the input mesh, same values in the same order, and its face index
  triples, which the input mesh still has after the call. Only the colour attribute is
  new.\<close>

theorem shape_preservation:
  assumes mesh: "deref h mesh = Some (Mesh m)"
    and verts: "deref h (vertices m) = Some (VertexArray vs)"
    and fcs: "deref h (faces m) = Some (FaceArray fs)"
    and md: "metadata_ok h m"
    and image: "image_of h img = Some a"
    and img: "0 < shape0 a" "0 < shape1 a" "shape2 a = 3 \<or> shape2 a = 4"
    and vs: "vs \<noteq> []"
  shows "\<exists>new h'.
           apply_vertex_colors fp h mesh img = Inr (new, h')
         \<and> mesh_vertices h' new = Some vs \<and> mesh_faces h' new = Some fs
         \<and> mesh_vertices h' mesh = Some vs \<and> mesh_faces h' mesh = Some fs"
proof -
  from apply_vertex_colors_store' [OF mesh verts md image img vs, of fp]
  obtain new h' vc va fa md' where res: "apply_vertex_colors fp h mesh img = Inr (new, h')"
    and frame: "take (length h) h' = h"
    and va: "deref h' va = Some (VertexArray vs)"
    and fa: "\<forall>x. deref h (faces m) = Some x \<longrightarrow> deref h' fa = Some x"
    and new: "deref h' new =
               Some (Mesh \<lparr>vertices = va, faces = fa,
                           vertex_colors = Some vc, metadata = md'\<rparr>)"
    by blast
  from fa fcs have fa': "deref h' fa = Some (FaceArray fs)"
    by blast
  have "mesh_vertices h' new = Some vs"
    by (simp add: mesh_vertices_def new va)
  moreover have "mesh_faces h' new = Some fs"
    by (simp add: mesh_faces_def new fa')
  moreover have "mesh_vertices h' mesh = Some vs"
    by (simp add: mesh_vertices_def deref_prefix [OF frame mesh] deref_prefix [OF frame verts])
  moreover have "mesh_faces h' mesh = Some fs"
    by (simp add: mesh_faces_def deref_prefix [OF frame mesh] deref_prefix [OF frame fcs])
  ultimately show ?thesis
    using res by blast
qed

theorem shape_preservation_witness:
  "\<exists>new h'.
     apply_vertex_colors example_fp cube_store 4 5 = Inr (new, h')
   \<and> mesh_vertices h' new = Some unit_cube \<and> mesh_faces h' new = Some cube_faces
   \<and> mesh_vertices h' 4 = Some unit_cube \<and> mesh_faces h' 4 = Some cube_faces"
  using shape_preservation [OF cube_store_inputs(1,2,3,4,5) quadrants_shape unit_cube_nonempty,
      of example_fp]
  by simp

subsection \<open>Metadata\<close>

text \<open>Claim C7. When the input mesh has a metadata dict, the output mesh refers to a dict
  at a fresh address, distinct from the input's, with the same keys bound to the same
  value references (a shallow duplicate), and the input's dict is still in place. When the
  input mesh has no metadata, the output mesh has none.\<close>

theorem metadata_copied:
  assumes mesh: "deref h mesh = Some (Mesh m)"
    and verts: "deref h (vertices m) = Some (VertexArray vs)"
    and md: "metadata_ok h m"
    and image: "image_of h img = Some a"
    and img: "0 < shape0 a" "0 < shape1 a" "shape2 a = 3 \<or> shape2 a = 4"
    and vs: "vs \<noteq> []"
  shows "\<exists>new h' mo.
           apply_vertex_colors fp h mesh img = Inr (new, h')
         \<and> deref h' new = Some (Mesh mo)
         \<and> (case metadata m of
               None \<Rightarrow> metadata mo = None
             | Some d \<Rightarrow>
                 (\<exists>d' kvs. metadata mo = Some d' \<and> d' \<noteq> d \<and> length h \<le> d'
                    \<and> deref h d = Some (Dict kvs)
                    \<and> deref h' d' = Some (Dict kvs) \<and> deref h' d = Some (Dict kvs)))"
proof -
  from apply_vertex_colors_store' [OF mesh verts md image img vs, of fp]
  obtain new h' vc va fa md' where res: "apply_vertex_colors fp h mesh img = Inr (new, h')"
    and frame: "take (length h) h' = h"
    and new: "deref h' new =
               Some (Mesh \<lparr>vertices = va, faces = fa,
                           vertex_colors = Some vc, metadata = md'\<rparr>)"
    and m': "case metadata m of
               None \<Rightarrow> md' = None
             | Some d \<Rightarrow> \<exists>d'. md' = Some d' \<and> length h \<le> d' \<and> deref h' d' = deref h d"
    by blast
  have "case metadata m of
               None \<Rightarrow> md' = None
             | Some d \<Rightarrow>
                 (\<exists>d' kvs. md' = Some d' \<and> d' \<noteq> d \<and> length h \<le> d'
                    \<and> deref h d = Some (Dict kvs)
                    \<and> deref h' d' = Some (Dict kvs) \<and> deref h' d = Some (Dict kvs))"
  proof (cases "metadata m")
    case None
    with m' show ?thesis by simp
  next
    case (Some d)
    with md obtain kvs where d: "deref h d = Some (Dict kvs)"
      by (auto simp: metadata_ok_def split: option.splits obj.splits)
    then have "d < length h"
      by (simp add: deref_Some_less)
    moreover from Some m' obtain d' where "md' = Some d'" "length h \<le> d'"
      "deref h' d' = deref h d"
      by auto
    ultimately show ?thesis
      using Some d deref_prefix [OF frame d] by auto
  qed
  with res new show ?thesis
    by (auto split: option.splits)
qed

theorem metadata_copied_witness:
  "(\<exists>new h' mo.
     apply_vertex_colors example_fp cube_store 4 5 = Inr (new, h')
   \<and> deref h' new = Some (Mesh mo)
   \<and> (\<exists>d'. metadata mo = Some d' \<and> d' \<noteq> 3 \<and> 6 \<le> d'
         \<and> deref h' d' = Some (Dict [(''name'', 2)])
         \<and> deref h' 3 = Some (Dict [(''name'', 2)])))
   \<and> (\<exists>new h' mo.
     apply_vertex_colors example_fp flat_store 2 3 = Inr (new, h')
   \<and> deref h' new = Some (Mesh mo) \<and> metadata mo = None)"
proof -
  have "\<exists>new h' mo.
     apply_vertex_colors example_fp cube_store 4 5 = Inr (new, h')
   \<and> deref h' new = Some (Mesh mo)
   \<and> (\<exists>d'. metadata mo = Some d' \<and> d' \<noteq> 3 \<and> 6 \<le> d'
         \<and> deref h' d' = Some (Dict [(''name'', 2)])
         \<and> deref h' 3 = Some (Dict [(''name'', 2)]))"
    using metadata_copied [OF cube_store_inputs(1,2,4,5) quadrants_shape unit_cube_nonempty,
        of example_fp]
    by (simp add: cube_mesh_def cube_store_length cube_store_dict)
  moreover have "\<exists>new h' mo.
     apply_vertex_colors example_fp flat_store 2 3 = Inr (new, h')
   \<and> deref h' new = Some (Mesh mo) \<and> metadata mo = None"
    using metadata_copied [OF flat_store_inputs(1,2,4,5) quadrants_shape flat_vertices_nonempty,
        of example_fp]
    by (simp add: flat_mesh_def)
  ultimately show ?thesis by blast
qed

subsection \<open>Inputs are not mutated\<close>

text \<open>Claim C8. After a successful call every object of the store the call started from
  is unchanged, so the input mesh object, its vertex positions, its faces, its metadata
  dict and the pixels of the image are what they were. The output mesh is a new object,
  and its vertex array, its face array, its colour buffer and its metadata dict are at
  fresh addresses: none of them is an object of the inputs. (The copy of the metadata is
  shallow, so the values stored in the two dicts are the same objects.)\<close>

theorem inputs_not_mutated:
  assumes mesh: "deref h mesh = Some (Mesh m)"
    and verts: "deref h (vertices m) = Some (VertexArray vs)"
    and fcs: "deref h (faces m) = Some (FaceArray fs)"
    and md: "metadata_ok h m"
    and image: "image_of h img = Some a"
    and img: "0 < shape0 a" "0 < shape1 a" "shape2 a = 3 \<or> shape2 a = 4"
    and vs: "vs \<noteq> []"
  shows "\<exists>new h' mo vc.
           apply_vertex_colors fp h mesh img = Inr (new, h')
         \<and> take (length h) h' = h
         \<and> deref h' mesh = Some (Mesh m)
         \<and> mesh_vertices h' mesh = Some vs \<and> mesh_faces h' mesh = Some fs
         \<and> image_of h' img = Some a
         \<and> (case metadata m of None \<Rightarrow> True | Some d \<Rightarrow> deref h' d = deref h d)
         \<and> length h \<le> new \<and> deref h' new = Some (Mesh mo)
         \<and> vertex_colors mo = Some vc \<and> length h \<le> vc
         \<and> length h \<le> vertices mo \<and> length h \<le> faces mo
         \<and> (case metadata m of
               None \<Rightarrow> metadata mo = None
             | Some d \<Rightarrow> \<exists>d'. metadata mo = Some d' \<and> length h \<le> d')"
proof -
  from apply_vertex_colors_store' [OF mesh verts md image img vs, of fp]
  obtain new h' vc va fa md' where res: "apply_vertex_colors fp h mesh img = Inr (new, h')"
    and frame: "take (length h) h' = h"
    and fresh: "length h \<le> vc" "length h \<le> va" "length h \<le> fa" "length h \<le> new"
    and new: "deref h' new =
               Some (Mesh \<lparr>vertices = va, faces = fa,
                           vertex_colors = Some vc, metadata = md'\<rparr>)"
    and m': "case metadata m of
               None \<Rightarrow> md' = None
             | Some d \<Rightarrow> \<exists>d'. md' = Some d' \<and> length h \<le> d' \<and> deref h' d' = deref h d"
    by blast
  let ?mo = "\<lparr>vertices = va, faces = fa, vertex_colors = Some vc, metadata = md'\<rparr>"
  have mesh': "deref h' mesh = Some (Mesh m)"
    by (rule deref_prefix [OF frame mesh])
  have v: "mesh_vertices h' mesh = Some vs"
    by (simp add: mesh_vertices_def mesh' deref_prefix [OF frame verts])
  have f: "mesh_faces h' mesh = Some fs"
    by (simp add: mesh_faces_def mesh' deref_prefix [OF frame fcs])
  have i: "image_of h' img = Some a"
    using image_of_cases [OF image]
    by (auto simp: image_of_def dest: deref_prefix [OF frame])
  have d: "case metadata m of None \<Rightarrow> True | Some d \<Rightarrow> deref h' d = deref h d"
    using md
    by (auto simp: metadata_ok_def deref_prefix [OF frame] split: option.splits obj.splits)
  have own: "vertex_colors ?mo = Some vc" "length h \<le> vertices ?mo" "length h \<le> faces ?mo"
    using fresh by simp_all
  have dict: "case metadata m of
               None \<Rightarrow> metadata ?mo = None
             | Some d \<Rightarrow> \<exists>d'. metadata ?mo = Some d' \<and> length h \<le> d'"
    using m' by (auto split: option.splits)
  from res frame mesh' v f i d fresh(1,4) new own dict show ?thesis
    by blast
qed

theorem inputs_not_mutated_witness:
  "\<exists>new h' mo vc d'.
     apply_vertex_colors example_fp cube_store 4 5 = Inr (new, h')
   \<and> take 6 h' = cube_store
   \<and> deref h' 4 = Some (Mesh cube_mesh)
   \<and> mesh_vertices h' 4 = Some unit_cube \<and> mesh_faces h' 4 = Some cube_faces
   \<and> image_of h' 5 = Some quadrants
   \<and> deref h' 3 = Some (Dict [(''name'', 2)])
   \<and> 6 \<le> new \<and> deref h' new = Some (Mesh mo)
   \<and> vertex_colors mo = Some vc \<and> 6 \<le> vc
   \<and> 6 \<le> vertices mo \<and> 6 \<le> faces mo
   \<and> metadata mo = Some d' \<and> 6 \<le> d'"
  using inputs_not_mutated [OF cube_store_inputs quadrants_shape unit_cube_nonempty, of example_fp]
  by (simp add: cube_mesh_def cube_store_length cube_store_dict)

subsection \<open>One colour per vertex\<close>

text \<open>Claim C4. For every valid mesh and image the colour buffer of the output mesh has one
  entry per input vertex, entry \<open>i\<close> being the colour sampled for vertex \<open>i\<close>; every entry
  has 4 components, and every component lies between 0 and 255.\<close>

theorem color_cardinality_and_range:
  assumes mesh: "deref h mesh = Some (Mesh m)"
    and verts: "deref h (vertices m) = Some (VertexArray vs)"
    and md: "metadata_ok h m"
    and image: "image_of h img = Some a"
    and img: "0 < shape0 a" "0 < shape1 a" "shape2 a = 3 \<or> shape2 a = 4"
    and vs: "vs \<noteq> []"
  shows "\<exists>new h' cols.
           apply_vertex_colors fp h mesh img = Inr (new, h')
         \<and> mesh_colors h' new = Some cols
         \<and> length cols = length vs
         \<and> (\<forall>i<length vs.
               cols ! i = pixel_color a (nat (img_y fp vs a ! i)) (nat (img_x fp vs a ! i))
             \<and> length (cols ! i) = 4
             \<and> (\<forall>k<4. unat (cols ! i ! k) \<le> 255))"
proof -
  let ?cols = "map (\<lambda>i. pixel_color a (nat (img_y fp vs a ! i)) (nat (img_x fp vs a ! i)))
                 [0..<length vs]"
  from apply_vertex_colors_colors [OF mesh verts md image img vs, of fp]
  obtain new h' where res: "apply_vertex_colors fp h mesh img = Inr (new, h')"
    and cols: "mesh_colors h' new = Some ?cols"
    by blast
  have range: "unat w \<le> 255" for w :: "8 word"
    using unsigned_less [of w, where ?'a = nat] by simp
  have "\<forall>i<length vs.
               ?cols ! i = pixel_color a (nat (img_y fp vs a ! i)) (nat (img_x fp vs a ! i))
             \<and> length (?cols ! i) = 4
             \<and> (\<forall>k<4. unat (?cols ! i ! k) \<le> 255)"
    by (simp add: pixel_color_length range)
  with res cols show ?thesis
    by (intro exI [of _ new] exI [of _ h'] exI [of _ ?cols]) simp
qed

theorem color_cardinality_and_range_witness:
  "\<exists>new h' cols.
     apply_vertex_colors example_fp cube_store 4 5 = Inr (new, h')
   \<and> mesh_colors h' new = Some cols
   \<and> length cols = 8
   \<and> cols ! 3 = [0, 0, 128, 255]
   \<and> unat (cols ! 3 ! 2) \<le> 255"
proof -
  from color_cardinality_and_range
    [OF cube_store_inputs(1,2,4,5) quadrants_shape unit_cube_nonempty, of example_fp]
  obtain new h' cols where res: "apply_vertex_colors example_fp cube_store 4 5 = Inr (new, h')"
    and cols: "mesh_colors h' new = Some cols" "length cols = length unit_cube"
    and each: "\<forall>i<length unit_cube.
               cols ! i = pixel_color quadrants (nat (img_y example_fp unit_cube quadrants ! i))
                            (nat (img_x example_fp unit_cube quadrants ! i))
             \<and> length (cols ! i) = 4
             \<and> (\<forall>k<4. unat (cols ! i ! k) \<le> 255)"
    by blast
  have len: "length unit_cube = 8"
    by (simp add: unit_cube_def)
  from each len have 3: "cols ! 3 = pixel_color quadrants (nat (img_y example_fp unit_cube quadrants ! 3))
                            (nat (img_x example_fp unit_cube quadrants ! 3))"
    by simp
  have "cols ! 3 = pixel_color quadrants 1 1"
    unfolding 3 by (simp add: cube_img_x cube_img_y)
  then have "cols ! 3 = [0, 0, 128, 255]"
    by (simp add: pixel_color_def quadrants_def upt_rec)
  with res cols len show ?thesis
    by simp
qed

subsection \<open>RGB and RGBA images\<close>

text \<open>Claim C5. With a 3-channel image every output colour has the three channel values of
  the sampled pixel as RGB and alpha 255. With a 4-channel image every output colour is the
  four channel values of the sampled pixel, so its alpha is the image's alpha there.\<close>

theorem rgb_rgba_handling:
  assumes mesh: "deref h mesh = Some (Mesh m)"
    and verts: "deref h (vertices m) = Some (VertexArray vs)"
    and md: "metadata_ok h m"
    and image: "image_of h img = Some a"
    and img: "0 < shape0 a" "0 < shape1 a" "shape2 a = 3 \<or> shape2 a = 4"
    and vs: "vs \<noteq> []"
  shows "\<exists>new h' cols.
           apply_vertex_colors fp h mesh img = Inr (new, h')
         \<and> mesh_colors h' new = Some cols
         \<and> (\<forall>i<length vs.
               (shape2 a = 3 \<longrightarrow>
                  take 3 (cols ! i) =
                    map (item a (nat (img_y fp vs a ! i)) (nat (img_x fp vs a ! i))) [0..<3]
                  \<and> cols ! i ! 3 = 255)
             \<and> (shape2 a = 4 \<longrightarrow>
                  cols ! i =
                    map (item a (nat (img_y fp vs a ! i)) (nat (img_x fp vs a ! i))) [0..<4]
                  \<and> cols ! i ! 3 =
                      item a (nat (img_y fp vs a ! i)) (nat (img_x fp vs a ! i)) 3))"
proof -
  let ?cols = "map (\<lambda>i. pixel_color a (nat (img_y fp vs a ! i)) (nat (img_x fp vs a ! i)))
                 [0..<length vs]"
  from apply_vertex_colors_colors [OF mesh verts md image img vs, of fp]
  obtain new h' where res: "apply_vertex_colors fp h mesh img = Inr (new, h')"
    and cols: "mesh_colors h' new = Some ?cols"
    by blast
  have three: "take 3 (pixel_color a r c) = map (item a r c) [0..<3] \<and> pixel_color a r c ! 3 = 255"
    if "shape2 a = 3" for r c
    using that by (simp add: pixel_color_def nth_append)
  have four: "pixel_color a r c = map (item a r c) [0..<4] \<and> pixel_color a r c ! 3 = item a r c 3"
    if "shape2 a = 4" for r c
    using that by (simp add: pixel_color_def)
  have "\<forall>i<length vs.
               (shape2 a = 3 \<longrightarrow>
                  take 3 (?cols ! i) =
                    map (item a (nat (img_y fp vs a ! i)) (nat (img_x fp vs a ! i))) [0..<3]
                  \<and> ?cols ! i ! 3 = 255)
             \<and> (shape2 a = 4 \<longrightarrow>
                  ?cols ! i =
                    map (item a (nat (img_y fp vs a ! i)) (nat (img_x fp vs a ! i))) [0..<4]
                  \<and> ?cols ! i ! 3 =
                      item a (nat (img_y fp vs a ! i)) (nat (img_x fp vs a ! i)) 3)"
    using three four by simp
  with res cols show ?thesis
    by (intro exI [of _ new] exI [of _ h'] exI [of _ ?cols]) simp
qed

theorem rgb_rgba_handling_witness:
  "(\<exists>new h' cols.
      apply_vertex_colors example_fp cube_store 4 5 = Inr (new, h')
    \<and> mesh_colors h' new = Some cols
    \<and> take 3 (cols ! 3) = [0, 0, 128] \<and> cols ! 3 ! 3 = 255)
   \<and> (\<exists>new h' cols.
      apply_vertex_colors example_fp rgba_store 2 3 = Inr (new, h')
    \<and> mesh_colors h' new = Some cols
    \<and> cols ! 1 = [0, 255, 128, 7] \<and> cols ! 1 ! 3 = 7)"
proof -
  have rgb: "\<exists>new h' cols.
      apply_vertex_colors example_fp cube_store 4 5 = Inr (new, h')
    \<and> mesh_colors h' new = Some cols
    \<and> take 3 (cols ! 3) = [0, 0, 128] \<and> cols ! 3 ! 3 = 255"
  proof -
    from rgb_rgba_handling
      [OF cube_store_inputs(1,2,4,5) quadrants_shape unit_cube_nonempty, of example_fp]
    obtain new h' cols where res: "apply_vertex_colors example_fp cube_store 4 5 = Inr (new, h')"
      and cols: "mesh_colors h' new = Some cols"
      and each: "\<forall>i<length unit_cube.
               (shape2 quadrants = 3 \<longrightarrow>
                  take 3 (cols ! i) =
                    map (item quadrants (nat (img_y example_fp unit_cube quadrants ! i))
                           (nat (img_x example_fp unit_cube quadrants ! i))) [0..<3]
                  \<and> cols ! i ! 3 = 255)
             \<and> (shape2 quadrants = 4 \<longrightarrow>
                  cols ! i =
                    map (item quadrants (nat (img_y example_fp unit_cube quadrants ! i))
                           (nat (img_x example_fp unit_cube quadrants ! i))) [0..<4]
                  \<and> cols ! i ! 3 =
                      item quadrants (nat (img_y example_fp unit_cube quadrants ! i))
                        (nat (img_x example_fp unit_cube quadrants ! i)) 3)"
      by blast
    have "(3::nat) < length unit_cube" "shape2 quadrants = 3"
      by (simp_all add: unit_cube_def quadrants_def)
    with each have "take 3 (cols ! 3) = map (item quadrants 1 1) [0..<3]" "cols ! 3 ! 3 = 255"
      by (simp_all add: cube_img_x cube_img_y)
    then have "take 3 (cols ! 3) = [0, 0, 128]" "cols ! 3 ! 3 = 255"
      by (simp_all add: quadrants_def upt_rec)
    with res cols show ?thesis by blast
  qed
  have rgba: "\<exists>new h' cols.
      apply_vertex_colors example_fp rgba_store 2 3 = Inr (new, h')
    \<and> mesh_colors h' new = Some cols
    \<and> cols ! 1 = [0, 255, 128, 7] \<and> cols ! 1 ! 3 = 7"
  proof -
    from rgb_rgba_handling
      [OF rgba_store_inputs quadrants_rgba_shape flat_vertices_nonempty, of example_fp]
    obtain new h' cols where res: "apply_vertex_colors example_fp rgba_store 2 3 = Inr (new, h')"
      and cols: "mesh_colors h' new = Some cols"
      and each: "\<forall>i<length flat_vertices.
               (shape2 quadrants_rgba = 3 \<longrightarrow>
                  take 3 (cols ! i) =
                    map (item quadrants_rgba (nat (img_y example_fp flat_vertices quadrants_rgba ! i))
                           (nat (img_x example_fp flat_vertices quadrants_rgba ! i))) [0..<3]
                  \<and> cols ! i ! 3 = 255)
             \<and> (shape2 quadrants_rgba = 4 \<longrightarrow>
                  cols ! i =
                    map (item quadrants_rgba (nat (img_y example_fp flat_vertices quadrants_rgba ! i))
                           (nat (img_x example_fp flat_vertices quadrants_rgba ! i))) [0..<4]
                  \<and> cols ! i ! 3 =
                      item quadrants_rgba (nat (img_y example_fp flat_vertices quadrants_rgba ! i))
                        (nat (img_x example_fp flat_vertices quadrants_rgba ! i)) 3)"
      by blast
    have "(1::nat) < length flat_vertices" "shape2 quadrants_rgba = 4"
      by (simp_all add: flat_vertices_def quadrants_rgba_def)
    with each have "cols ! 1 = map (item quadrants_rgba 1 0) [0..<4]"
      "cols ! 1 ! 3 = item quadrants_rgba 1 0 3"
      by (simp_all add: flat_img_rgba)
    then have "cols ! 1 = [0, 255, 128, 7]" "cols ! 1 ! 3 = 7"
      by (simp_all add: quadrants_rgba_def upt_rec)
    with res cols show ?thesis by blast
  qed
  from rgb rgba show ?thesis by blast
qed

subsection \<open>Pixel accesses stay in bounds\<close>

text \<open>Claim C10. For every mesh with at least one vertex (whatever the size of its bounding
  box, so in particular when it is nonzero on X and Y) and every image with height and
  width at least 1 and 3 or 4 channels, the clamped indices of every vertex satisfy
  \<open>0 \<le> img_x \<le> width - 1\<close> and \<open>0 \<le> img_y \<le> height - 1\<close>, the pixel access of
  that vertex succeeds, and the call returns.\<close>

theorem sampling_in_bounds:
  assumes mesh: "deref h mesh = Some (Mesh m)"
    and verts: "deref h (vertices m) = Some (VertexArray vs)"
    and md: "metadata_ok h m"
    and image: "image_of h img = Some a"
    and img: "0 < shape0 a" "0 < shape1 a" "shape2 a = 3 \<or> shape2 a = 4"
    and vs: "vs \<noteq> []"
  shows "(\<exists>new h'. apply_vertex_colors fp h mesh img = Inr (new, h'))
         \<and> (\<forall>i<length vs.
               0 \<le> img_x fp vs a ! i \<and> img_x fp vs a ! i \<le> int (shape1 a) - 1
             \<and> 0 \<le> img_y fp vs a ! i \<and> img_y fp vs a ! i \<le> int (shape0 a) - 1
             \<and> getitem a (img_y fp vs a ! i) (img_x fp vs a ! i) =
                 Inr (map (item a (nat (img_y fp vs a ! i)) (nat (img_x fp vs a ! i)))
                        [0..<shape2 a]))"
proof -
  from apply_vertex_colors_colors [OF mesh verts md image img vs, of fp]
  have res: "\<exists>new h'. apply_vertex_colors fp h mesh img = Inr (new, h')"
    by blast
  have "0 \<le> img_x fp vs a ! i \<and> img_x fp vs a ! i \<le> int (shape1 a) - 1
             \<and> 0 \<le> img_y fp vs a ! i \<and> img_y fp vs a ! i \<le> int (shape0 a) - 1
             \<and> getitem a (img_y fp vs a ! i) (img_x fp vs a ! i) =
                 Inr (map (item a (nat (img_y fp vs a ! i)) (nat (img_x fp vs a ! i)))
                        [0..<shape2 a])"
    if i: "i < length vs" for i
  proof -
    note x = img_x_bounds [OF i img(2), of fp] and y = img_y_bounds [OF i img(1), of fp]
    have "getitem a (img_y fp vs a ! i) (img_x fp vs a ! i) =
                 Inr (map (item a (nat (img_y fp vs a ! i)) (nat (img_x fp vs a ! i)))
                        [0..<shape2 a])"
      using x y by (intro getitem_in_range) simp_all
    with x y show ?thesis by simp
  qed
  with res show ?thesis by blast
qed

theorem sampling_in_bounds_witness:
  "(\<exists>new h'. apply_vertex_colors example_fp cube_store 4 5 = Inr (new, h'))
   \<and> img_x example_fp unit_cube quadrants ! 3 = 1
   \<and> img_y example_fp unit_cube quadrants ! 3 = 1
   \<and> getitem quadrants 1 1 = Inr [0, 0, 128]"
proof -
  note w = sampling_in_bounds
    [OF cube_store_inputs(1,2,4,5) quadrants_shape unit_cube_nonempty, of example_fp]
  have "(3::nat) < length unit_cube"
    by (simp add: unit_cube_def)
  with w have "getitem quadrants (img_y example_fp unit_cube quadrants ! 3)
                 (img_x example_fp unit_cube quadrants ! 3) =
               Inr (map (item quadrants (nat (img_y example_fp unit_cube quadrants ! 3))
                           (nat (img_x example_fp unit_cube quadrants ! 3))) [0..<shape2 quadrants])"
    by blast
  then have "getitem quadrants 1 1 = Inr (map (item quadrants 1 1) [0..<shape2 quadrants])"
    by (simp add: cube_img_x cube_img_y)
  then have "getitem quadrants 1 1 = Inr [0, 0, 128]"
    by (simp add: quadrants_def upt_rec)
  with w show ?thesis
    by (simp add: cube_img_x cube_img_y)
qed

subsection \<open>Independence of the Z coordinates\<close>

text \<open>Claim C9. Two valid meshes whose vertices agree in X and in Y receive the same
  sequence of vertex colours from the same image, whatever their Z coordinates (and
  whatever their faces).\<close>

theorem z_independence:
  assumes mesh1: "deref h1 mesh1 = Some (Mesh m1)"
    and verts1: "deref h1 (vertices m1) = Some (VertexArray vs1)"
    and md1: "metadata_ok h1 m1"
    and image1: "image_of h1 img1 = Some a"
    and mesh2: "deref h2 mesh2 = Some (Mesh m2)"
    and verts2: "deref h2 (vertices m2) = Some (VertexArray vs2)"
    and md2: "metadata_ok h2 m2"
    and image2: "image_of h2 img2 = Some a"
    and img: "0 < shape0 a" "0 < shape1 a" "shape2 a = 3 \<or> shape2 a = 4"
    and vs: "vs1 \<noteq> []"
    and x: "map fst vs1 = map fst vs2"
    and y: "map (fst \<circ> snd) vs1 = map (fst \<circ> snd) vs2"
  shows "\<exists>new1 h1' new2 h2' cols.
           apply_vertex_colors fp h1 mesh1 img1 = Inr (new1, h1')
         \<and> apply_vertex_colors fp h2 mesh2 img2 = Inr (new2, h2')
         \<and> mesh_colors h1' new1 = Some cols
         \<and> mesh_colors h2' new2 = Some cols"
proof -
  from x have len: "length vs1 = length vs2"
    by (rule map_eq_imp_length_eq)
  with vs have vs2: "vs2 \<noteq> []" by auto
  have ix: "img_x fp vs1 a = img_x fp vs2 a"
    by (simp only: img_x_closed [OF vs] img_x_closed [OF vs2] x)
  have iy: "img_y fp vs1 a = img_y fp vs2 a"
    by (simp only: img_y_closed [OF vs] img_y_closed [OF vs2] y)
  from apply_vertex_colors_colors [OF mesh1 verts1 md1 image1 img vs, of fp]
    apply_vertex_colors_colors [OF mesh2 verts2 md2 image2 img vs2, of fp]
  show ?thesis
    unfolding ix iy len by blast
qed

theorem z_independence_witness:
  "\<exists>new1 h1' new2 h2' cols.
     apply_vertex_colors example_fp flat_store 2 3 = Inr (new1, h1')
   \<and> apply_vertex_colors example_fp flat_store_z 2 3 = Inr (new2, h2')
   \<and> mesh_colors h1' new1 = Some cols
   \<and> mesh_colors h2' new2 = Some cols"
proof -
  have x: "map fst flat_vertices = map fst flat_vertices_z"
    and y: "map (fst \<circ> snd) flat_vertices = map (fst \<circ> snd) flat_vertices_z"
    by (simp_all add: flat_vertices_def flat_vertices_z_def)
  from z_independence [OF flat_store_inputs(1,2,4,5) flat_store_z_inputs quadrants_shape
      flat_vertices_nonempty x y, of example_fp]
  show ?thesis .
qed

subsection \<open>Projection to pixels\<close>




subsection \<open>Degenerate bounding boxes\<close>




end
